theory Spec2Isabelle
  imports Complex_Main
begin

section \<open>Data model\<close>

text \<open>
  A frame or image is a pixel buffer (a numpy array in the source); only its identity
  matters here, so it is a list of numbers.
\<close>

type_synonym image = "nat list"

text \<open>
  One detection of the model. The detector reads \<^verbatim>\<open>box.cls\<close> only.
\<close>

datatype box = Box (cls: int)

text \<open>
  The \<^verbatim>\<open>Results\<close> object the model returns for one image: its boxes, and the
  annotated image that \<^verbatim>\<open>results[0].plot()\<close> returns.
\<close>

record Results =
  boxes :: "box list"
  plot :: image

text \<open>A loaded model, \<^verbatim>\<open>YOLO(path)\<close>, is identified by the weights path it was loaded from.\<close>

datatype yolo = YOLO string

text \<open>
  Values stored in a history dictionary. \<open>PCamLabel n\<close> stands for the f-string that
  labels camera \<open>n\<close> (a Chinese word for camera followed by \<^verbatim>\<open>ID: n\<close>); \<open>PFloat\<close>
  carries a duration, with the clock read as an exact rational (float rounding is not
  modelled).
\<close>

datatype pyval =
    PStr string
  | PCamLabel int
  | PInt int
  | PFloat rat
  | PIntList "int list"

text \<open>A history record is a Python dict; here an association list in insertion order.\<close>

type_synonym detection_info = "(string \<times> pyval) list"

text \<open>
  A video container as OpenCV sees it: the properties it reports (the frame count already
  passed through \<^verbatim>\<open>int()\<close>), and the frames that \<^verbatim>\<open>cap.read()\<close> delivers before
  it first fails. The reported count and the number of readable frames are independent.
\<close>

record video =
  CAP_PROP_FPS :: rat
  CAP_PROP_FRAME_COUNT :: int
  CAP_PROP_FRAME_WIDTH :: int
  CAP_PROP_FRAME_HEIGHT :: int
  stream :: "image list"

datatype content =
    ImageFile image
  | VideoFile video
  | CsvFile "detection_info list"
  | OtherFile

record filesystem =
  dirs :: "string list"
  files :: "(string \<times> content) list"

text \<open>
  A camera device: whether it opens, and what the \<open>n\<close>-th \<^verbatim>\<open>cap.read()\<close> delivers
  (\<open>None\<close> when the read fails). A live camera may deliver frames forever.
\<close>

record camera =
  cam_isOpened :: bool
  cam_read :: "nat \<Rightarrow> image option"

text \<open>
  Everything a run takes from outside the program: inference, the camera devices, the
  clock (\<^verbatim>\<open>time.time()\<close> before and after the loop, and the two \<^verbatim>\<open>strftime\<close>
  renderings of \<^verbatim>\<open>datetime.now()\<close>), the home directory, and whether
  \<^verbatim>\<open>cv2.imwrite\<close> succeeds for a path. Library calls are taken to return normally.
\<close>

record env =
  predict :: "yolo \<Rightarrow> image \<Rightarrow> Results"
  cameras :: "int \<Rightarrow> camera"
  start_time :: rat
  end_time :: rat
  now :: string
  stamp :: string
  home :: string
  imwrite_ok :: "string \<Rightarrow> bool"

text \<open>
  Exceptions raised by the program itself. The argument is the path or camera id that
  the message interpolates.
\<close>

datatype exn =
    FileNotFoundError string
  | ValueError string
  | ValueError_camera int
  | ZeroDivisionError

text \<open>
  \<^verbatim>\<open>self.results\<close> holds the whole result list after an image run and the single
  \<^verbatim>\<open>results[0]\<close> after a video or webcam frame.
\<close>

datatype results_value = Results_list "Results list" | Results_one Results

record HandSignDetector =
  model :: yolo
  results :: "results_value option"
  current_frame :: "image option"
  detection_history :: "detection_info list"

text \<open>
  The float \<^verbatim>\<open>frame_idx / frame_count * 100\<close>, kept as its two operands: the floating
  point value is not computed.
\<close>

datatype progress = Progress int int

text \<open>
  What a worker emits. An error signal carries \<^verbatim>\<open>str(e)\<close> of the exception caught, or
  the message of the webcam thread about a camera that does not open; a progress signal
  carries \<^verbatim>\<open>int(progress)\<close>, kept as the operands of the division.
\<close>

datatype message = Exception_text exn | Camera_open_failed int

datatype payload =
    Image_result image Results
  | Video_result "string option" "Results list"

datatype signal =
    Finished
  | Error_signal message
  | Result_signal payload
  | Progress_signal progress image
  | Frame_ready image Results

text \<open>A run has failed when its worker emitted an error signal.\<close>

fun is_error_signal :: "signal \<Rightarrow> bool" where
  "is_error_signal (Error_signal m) = True"
| "is_error_signal s = False"

definition failed :: "signal list \<Rightarrow> bool" where
  "failed sigs = (filter is_error_signal sigs \<noteq> [])"

section \<open>The operating system and OpenCV\<close>

definition path_exists :: "filesystem \<Rightarrow> string \<Rightarrow> bool" where
  "path_exists fsys p = (p \<in> set (dirs fsys) \<or> map_of (files fsys) p \<noteq> None)"

text \<open>\<^verbatim>\<open>os.path.dirname\<close> of posixpath.\<close>

definition dirname :: "string \<Rightarrow> string" where
  "dirname p =
     (let head = rev (dropWhile (\<lambda>c. c \<noteq> CHR ''/'') (rev p))
      in if head \<noteq> [] \<and> dropWhile (\<lambda>c. c = CHR ''/'') head \<noteq> []
         then rev (dropWhile (\<lambda>c. c = CHR ''/'') (rev head))
         else head)"

text \<open>\<^verbatim>\<open>os.path.join\<close> of two components.\<close>

definition join :: "string \<Rightarrow> string \<Rightarrow> string" where
  "join a b =
     (if take 1 b = ''/'' then b
      else if a = [] \<or> last a = CHR ''/'' then a @ b
      else a @ ''/'' @ b)"

definition makedirs :: "string \<Rightarrow> filesystem \<Rightarrow> filesystem" where
  "makedirs d fsys = fsys\<lparr>dirs := d # dirs fsys\<rparr>"

definition write_file :: "string \<Rightarrow> content \<Rightarrow> filesystem \<Rightarrow> filesystem" where
  "write_file p c fsys = fsys\<lparr>files := (p, c) # files fsys\<rparr>"

text \<open>\<^verbatim>\<open>cv2.imread\<close> returns \<^verbatim>\<open>None\<close> for anything that is not an image.\<close>

definition imread :: "filesystem \<Rightarrow> string \<Rightarrow> image option" where
  "imread fsys p =
     (case map_of (files fsys) p of
        Some (ImageFile img) \<Rightarrow> Some img
      | _ \<Rightarrow> None)"

text \<open>
  \<^verbatim>\<open>cv2.VideoCapture(path)\<close>: \<open>None\<close> is a capture whose \<^verbatim>\<open>isOpened()\<close> is false.
\<close>

definition VideoCapture :: "filesystem \<Rightarrow> string \<Rightarrow> video option" where
  "VideoCapture fsys p =
     (case map_of (files fsys) p of
        Some (VideoFile v) \<Rightarrow> Some v
      | _ \<Rightarrow> None)"

text \<open>Python truthiness of an optional path: \<^verbatim>\<open>None\<close> and the empty string are false.\<close>

fun truthy :: "string option \<Rightarrow> bool" where
  "truthy None = False"
| "truthy (Some p) = (p \<noteq> [])"

text \<open>
  The file a \<^verbatim>\<open>cv2.VideoWriter\<close> leaves at \<open>p\<close> after the given frames were written
  to it, with the properties it was opened with.
\<close>

definition VideoWriter_file :: "video \<Rightarrow> image list \<Rightarrow> content" where
  "VideoWriter_file v written =
     VideoFile \<lparr>CAP_PROP_FPS = CAP_PROP_FPS v,
                CAP_PROP_FRAME_COUNT = int (length written),
                CAP_PROP_FRAME_WIDTH = CAP_PROP_FRAME_WIDTH v,
                CAP_PROP_FRAME_HEIGHT = CAP_PROP_FRAME_HEIGHT v,
                stream = written\<rparr>"

text \<open>
  The block that prepares the output video, shared by \<^verbatim>\<open>detect_video\<close> and the video
  worker: create the directory when it is named and missing.
\<close>

definition prepare_output :: "string option \<Rightarrow> filesystem \<Rightarrow> filesystem" where
  "prepare_output output_path fsys =
     (case output_path of
        None \<Rightarrow> fsys
      | Some p \<Rightarrow>
          if p = [] then fsys
          else let output_dir = dirname p
               in if output_dir \<noteq> [] \<and> \<not> path_exists fsys output_dir
                  then makedirs output_dir fsys else fsys)"

definition release_output :: "string option \<Rightarrow> video \<Rightarrow> image list \<Rightarrow> filesystem \<Rightarrow> filesystem" where
  "release_output output_path v written fsys =
     (case output_path of
        None \<Rightarrow> fsys
      | Some p \<Rightarrow> if p = [] then fsys else write_file p (VideoWriter_file v written) fsys)"

section \<open>Construction and image detection: HandSignDetector and ImageDetectionWorker.run\<close>

text \<open>\<^verbatim>\<open>__init__\<close>: the model path is optional (\<^verbatim>\<open>None\<close> is \<open>None\<close>).\<close>

definition init :: "filesystem \<Rightarrow> string option \<Rightarrow> HandSignDetector" where
  "init fsys model_path =
     \<lparr>model = (case model_path of
                 None \<Rightarrow> YOLO ''yolo11n.pt''
               | Some p \<Rightarrow> if \<not> path_exists fsys p then YOLO ''yolo11n.pt'' else YOLO p),
      results = None,
      current_frame = None,
      detection_history = []\<rparr>"

definition detect_image ::
  "env \<Rightarrow> filesystem \<Rightarrow> string \<Rightarrow> HandSignDetector
     \<Rightarrow> (exn + image \<times> Results) \<times> HandSignDetector" where
  "detect_image e fsys image_path self =
     (if \<not> path_exists fsys image_path then (Inl (FileNotFoundError image_path), self)
      else case imread fsys image_path of
        None \<Rightarrow> (Inl (ValueError image_path), self)
      | Some img \<Rightarrow>
          let img_display = img;
              r = predict e (model self) img;
              self1 = self\<lparr>results := Some (Results_list [r]),
                           current_frame := Some img_display\<rparr>;
              annotated_img = plot r;
              detection_info =
                [(''type'', PStr ''image''),
                 (''source'', PStr image_path),
                 (''timestamp'', PStr (now e)),
                 (''detections'', PInt (int (length (boxes r)))),
                 (''processing_time'', PFloat (end_time e - start_time e)),
                 (''classes'', PIntList (map cls (boxes r)))];
              self2 = self1\<lparr>detection_history := detection_history self1 @ [detection_info]\<rparr>
          in (Inr (annotated_img, r), self2))"

definition ImageDetectionWorker_run ::
  "env \<Rightarrow> filesystem \<Rightarrow> string \<Rightarrow> HandSignDetector \<Rightarrow> signal list \<times> HandSignDetector" where
  "ImageDetectionWorker_run e fsys image_path detector =
     (case detect_image e fsys image_path detector of
        (Inr (result_img, r), detector1) \<Rightarrow>
          ([Result_signal (Image_result result_img r), Finished], detector1)
      | (Inl err, detector1) \<Rightarrow>
          ([Error_signal (Exception_text err), Finished], detector1))"

section \<open>Video detection: detect_video and VideoDetectionWorker.run\<close>

text \<open>
  The local variables of the loop of \<^verbatim>\<open>detect_video\<close>: the results so far, the frame
  index, the frames handed to \<^verbatim>\<open>out.write\<close>, and the calls made to the progress
  callback.
\<close>

record video_locals =
  all_results :: "Results list"
  frame_idx :: nat
  written :: "image list"
  progress_calls :: "(progress \<times> image) list"

text \<open>
  The loop runs over the frames the capture delivers; the empty list is the failed read
  that breaks out of it. A raised exception leaves the loop with the state reached.
\<close>

fun detect_video_loop ::
  "(image \<Rightarrow> Results) \<Rightarrow> bool \<Rightarrow> bool \<Rightarrow> int \<Rightarrow> image list
     \<Rightarrow> video_locals \<Rightarrow> HandSignDetector
     \<Rightarrow> exn option \<times> video_locals \<times> HandSignDetector" where
  "detect_video_loop model_call has_output has_callback frame_count [] L self = (None, L, self)"
| "detect_video_loop model_call has_output has_callback frame_count (frame # rest) L self =
     (let r = model_call frame;
          L1 = L\<lparr>all_results := all_results L @ [r]\<rparr>;
          annotated_frame = plot r;
          L2 = (if has_output then L1\<lparr>written := written L1 @ [annotated_frame]\<rparr> else L1);
          self1 = self\<lparr>current_frame := Some annotated_frame, results := Some (Results_one r)\<rparr>;
          L3 = L2\<lparr>frame_idx := frame_idx L2 + 1\<rparr>
      in if frame_count = 0 then (Some ZeroDivisionError, L3, self1)
         else
           let progress = Progress (int (frame_idx L3)) frame_count;
               L4 = (if has_callback
                     then L3\<lparr>progress_calls := progress_calls L3 @ [(progress, annotated_frame)]\<rparr>
                     else L3)
           in detect_video_loop model_call has_output has_callback frame_count rest L4 self1)"

definition detect_video ::
  "env \<Rightarrow> string \<Rightarrow> string option \<Rightarrow> bool \<Rightarrow> filesystem \<Rightarrow> HandSignDetector
     \<Rightarrow> (exn + image option \<times> Results list) \<times> (progress \<times> image) list
        \<times> filesystem \<times> HandSignDetector" where
  "detect_video e video_path output_path has_callback fsys self =
     (if \<not> path_exists fsys video_path then (Inl (FileNotFoundError video_path), [], fsys, self)
      else case VideoCapture fsys video_path of
        None \<Rightarrow> (Inl (ValueError video_path), [], fsys, self)
      | Some cap \<Rightarrow>
          let frame_count = CAP_PROP_FRAME_COUNT cap;
              fsys1 = prepare_output output_path fsys;
              L0 = \<lparr>all_results = [], frame_idx = 0, written = [], progress_calls = []\<rparr>
          in case detect_video_loop (predict e (model self)) (truthy output_path) has_callback
                    frame_count (stream cap) L0 self of
               (Some err, L, self1) \<Rightarrow>
                 (Inl err, progress_calls L,
                  release_output output_path cap (written L) fsys1, self1)
             | (None, L, self1) \<Rightarrow>
                 let fsys2 = release_output output_path cap (written L) fsys1;
                     detection_info =
                       [(''type'', PStr ''video''),
                        (''source'', PStr video_path),
                        (''timestamp'', PStr (now e)),
                        (''frames'', PInt frame_count),
                        (''processing_time'', PFloat (end_time e - start_time e))];
                     self2 = self1\<lparr>detection_history := detection_history self1 @ [detection_info]\<rparr>
                 in (Inr (current_frame self2, all_results L), progress_calls L, fsys2, self2))"

text \<open>
  The loop of \<^verbatim>\<open>VideoDetectionWorker.run\<close>. \<open>is_running n\<close> is the value of the
  flag \<^verbatim>\<open>self.is_running\<close> at the check before frame \<open>n\<close>; \<^verbatim>\<open>stop()\<close>, called from
  the interface thread, makes it false. The progress signals are collected in
  \<open>progress_calls\<close>.
\<close>

fun video_worker_loop ::
  "(image \<Rightarrow> Results) \<Rightarrow> bool \<Rightarrow> int \<Rightarrow> (nat \<Rightarrow> bool) \<Rightarrow> image list
     \<Rightarrow> video_locals \<Rightarrow> exn option \<times> video_locals" where
  "video_worker_loop model_call has_output frame_count is_running [] L = (None, L)"
| "video_worker_loop model_call has_output frame_count is_running (frame # rest) L =
     (if \<not> is_running (frame_idx L) then (None, L)
      else
        let r = model_call frame;
            L1 = L\<lparr>all_results := all_results L @ [r]\<rparr>;
            annotated_frame = plot r;
            L2 = (if has_output then L1\<lparr>written := written L1 @ [annotated_frame]\<rparr> else L1);
            L3 = L2\<lparr>frame_idx := frame_idx L2 + 1\<rparr>
        in if frame_count = 0 then (Some ZeroDivisionError, L3)
           else
             let progress = Progress (int (frame_idx L3)) frame_count;
                 L4 = L3\<lparr>progress_calls := progress_calls L3 @ [(progress, annotated_frame)]\<rparr>
             in video_worker_loop model_call has_output frame_count is_running rest L4)"

definition VideoDetectionWorker_run ::
  "env \<Rightarrow> string \<Rightarrow> string option \<Rightarrow> (nat \<Rightarrow> bool) \<Rightarrow> filesystem \<Rightarrow> HandSignDetector
     \<Rightarrow> signal list \<times> filesystem \<times> HandSignDetector" where
  "VideoDetectionWorker_run e video_path output_path is_running fsys detector =
     (case VideoCapture fsys video_path of
        None \<Rightarrow>
          ([Error_signal (Exception_text (ValueError video_path)), Finished], fsys, detector)
      | Some cap \<Rightarrow>
          let frame_count = CAP_PROP_FRAME_COUNT cap;
              fsys1 = prepare_output output_path fsys;
              L0 = \<lparr>all_results = [], frame_idx = 0, written = [], progress_calls = []\<rparr>
          in case video_worker_loop (predict e (model detector)) (truthy output_path)
                    frame_count is_running (stream cap) L0 of
               (Some err, L) \<Rightarrow>
                 (map (\<lambda>(p, f). Progress_signal p f) (progress_calls L)
                    @ [Error_signal (Exception_text err), Finished],
                  release_output output_path cap (written L) fsys1, detector)
             | (None, L) \<Rightarrow>
                 let fsys2 = release_output output_path cap (written L) fsys1;
                     detection_info =
                       [(''type'', PStr ''video''),
                        (''source'', PStr video_path),
                        (''timestamp'', PStr (now e)),
                        (''frames'', PInt frame_count),
                        (''processing_time'', PFloat (end_time e - start_time e))];
                     detector1 = detector\<lparr>detection_history :=
                                   detection_history detector @ [detection_info]\<rparr>
                 in (map (\<lambda>(p, f). Progress_signal p f) (progress_calls L)
                       @ [Result_signal (Video_result output_path (all_results L)), Finished],
                     fsys2, detector1))"

section \<open>Webcam detection: detect_webcam and WebcamDetectionThread.run\<close>

text \<open>
  \<^verbatim>\<open>stop_signal and stop_signal()\<close>: the optional callable, given as the value its
  call returns at the check before frame \<open>n\<close>.
\<close>

fun stop_requested :: "(nat \<Rightarrow> bool) option \<Rightarrow> nat \<Rightarrow> bool" where
  "stop_requested None n = False"
| "stop_requested (Some stop_signal) n = stop_signal n"

record webcam_locals =
  frame_count :: nat
  frame_calls :: "(image \<times> Results) list"

text \<open>
  The loop of \<^verbatim>\<open>detect_webcam\<close>. Nothing bounds it: with a camera that keeps
  delivering frames and no stop request it never returns, which is the value \<open>None\<close>.
\<close>

partial_function (option) detect_webcam_loop ::
  "(image \<Rightarrow> Results) \<Rightarrow> (nat \<Rightarrow> bool) option \<Rightarrow> bool \<Rightarrow> (nat \<Rightarrow> image option)
     \<Rightarrow> webcam_locals \<Rightarrow> HandSignDetector
     \<Rightarrow> (webcam_locals \<times> HandSignDetector) option" where
  "detect_webcam_loop model_call stop_signal has_callback read L self =
     (if stop_requested stop_signal (frame_count L) then Some (L, self)
      else case read (frame_count L) of
        None \<Rightarrow> Some (L, self)
      | Some frame \<Rightarrow>
          detect_webcam_loop model_call stop_signal has_callback read
            ((if has_callback
              then L\<lparr>frame_calls := frame_calls L @ [(plot (model_call frame), model_call frame)]\<rparr>
              else L)\<lparr>frame_count := frame_count L + 1\<rparr>)
            (self\<lparr>current_frame := Some (plot (model_call frame)),
                  results := Some (Results_one (model_call frame))\<rparr>))"

declare detect_webcam_loop.simps [code]

definition detect_webcam ::
  "env \<Rightarrow> int \<Rightarrow> (nat \<Rightarrow> bool) option \<Rightarrow> bool \<Rightarrow> HandSignDetector
     \<Rightarrow> ((exn + image option \<times> results_value option) \<times> (image \<times> Results) list
         \<times> HandSignDetector) option" where
  "detect_webcam e cam_id stop_signal has_callback self =
     (let cap = cameras e cam_id
      in if \<not> cam_isOpened cap then Some (Inl (ValueError_camera cam_id), [], self)
         else
           case detect_webcam_loop (predict e (model self)) stop_signal has_callback (cam_read cap)
                  \<lparr>frame_count = 0, frame_calls = []\<rparr> self of
             None \<Rightarrow> None
           | Some (L, self1) \<Rightarrow>
               let detection_info =
                     [(''type'', PStr ''webcam''),
                      (''source'', PCamLabel cam_id),
                      (''timestamp'', PStr (now e)),
                      (''frames'', PInt (int (frame_count L))),
                      (''processing_time'', PFloat (end_time e - start_time e))];
                   self2 = self1\<lparr>detection_history := detection_history self1 @ [detection_info]\<rparr>
               in Some (Inr (current_frame self2, results self2), frame_calls L, self2))"

text \<open>
  The loop of \<^verbatim>\<open>WebcamDetectionThread.run\<close>; \<open>running n\<close> is the value of
  \<^verbatim>\<open>self.running\<close> at the check before frame \<open>n\<close>. The frames emitted through
  \<^verbatim>\<open>frame_ready\<close> are collected in \<open>frame_calls\<close>. Like the loop of
  \<^verbatim>\<open>detect_webcam\<close> it may never return.
\<close>

partial_function (option) webcam_thread_loop ::
  "(image \<Rightarrow> Results) \<Rightarrow> (nat \<Rightarrow> bool) \<Rightarrow> (nat \<Rightarrow> image option)
     \<Rightarrow> webcam_locals \<Rightarrow> webcam_locals option" where
  "webcam_thread_loop model_call running read L =
     (if \<not> running (frame_count L) then Some L
      else case read (frame_count L) of
        None \<Rightarrow> Some L
      | Some frame \<Rightarrow>
          webcam_thread_loop model_call running read
            (L\<lparr>frame_calls := frame_calls L @ [(plot (model_call frame), model_call frame)],
               frame_count := frame_count L + 1\<rparr>))"

declare webcam_thread_loop.simps [code]

definition WebcamDetectionThread_run ::
  "env \<Rightarrow> int \<Rightarrow> (nat \<Rightarrow> bool) \<Rightarrow> HandSignDetector
     \<Rightarrow> (signal list \<times> HandSignDetector) option" where
  "WebcamDetectionThread_run e cam_id running detector =
     (let cap = cameras e cam_id
      in if \<not> cam_isOpened cap then Some ([Error_signal (Camera_open_failed cam_id)], detector)
         else
           case webcam_thread_loop (predict e (model detector)) running (cam_read cap)
                  \<lparr>frame_count = 0, frame_calls = []\<rparr> of
             None \<Rightarrow> None
           | Some L \<Rightarrow>
               if frame_count L > 0
               then
                 let detection_info =
                       [(''type'', PStr ''webcam''),
                        (''source'', PCamLabel cam_id),
                        (''timestamp'', PStr (now e)),
                        (''frames'', PInt (int (frame_count L))),
                        (''processing_time'', PFloat (end_time e - start_time e))]
                 in Some (map (\<lambda>(f, r). Frame_ready f r) (frame_calls L),
                          detector\<lparr>detection_history :=
                            detection_history detector @ [detection_info]\<rparr>)
               else Some (map (\<lambda>(f, r). Frame_ready f r) (frame_calls L), detector))"

section \<open>The history and the current frame\<close>

definition get_detection_history :: "HandSignDetector \<Rightarrow> detection_info list" where
  "get_detection_history self = detection_history self"

definition save_current_frame ::
  "env \<Rightarrow> string \<Rightarrow> filesystem \<Rightarrow> HandSignDetector \<Rightarrow> bool \<times> filesystem" where
  "save_current_frame e save_path fsys self =
     (case current_frame self of
        None \<Rightarrow> (False, fsys)
      | Some frame \<Rightarrow>
          let save_dir = dirname save_path;
              fsys1 = (if save_dir \<noteq> [] \<and> \<not> path_exists fsys save_dir
                       then makedirs save_dir fsys else fsys)
          in if imwrite_ok e save_path then (True, write_file save_path (ImageFile frame) fsys1)
             else (False, fsys1))"

section \<open>utils.py\<close>

text \<open>
  The data frame written by \<^verbatim>\<open>to_csv\<close> is kept as the list of records it was built
  from; the text of the file is not modelled.
\<close>

definition export_detection_history ::
  "detection_info list \<Rightarrow> string \<Rightarrow> filesystem \<Rightarrow> bool \<times> filesystem" where
  "export_detection_history history export_path fsys =
     (if history = [] then (False, fsys)
      else
        let df = CsvFile history;
            export_dir = dirname export_path;
            fsys1 = (if export_dir \<noteq> [] \<and> \<not> path_exists fsys export_dir
                     then makedirs export_dir fsys else fsys)
        in (True, write_file export_path df fsys1))"

text \<open>
  Dialog boxes and status-bar messages, with the Chinese literals of the source rendered
  in English.
\<close>

datatype ui_event =
    Info_message string string
  | Error_message string string
  | Question_message string string
  | Status_message string

text \<open>
  \<^verbatim>\<open>get_default_save_path\<close>; the results folder under the home directory has a
  Chinese name in the source, rendered here as \<open>results\<close>, and so have the file stems.
\<close>

definition get_default_save_path :: "env \<Rightarrow> string \<Rightarrow> filesystem \<Rightarrow> string \<times> filesystem" where
  "get_default_save_path e file_type fsys =
     (let base_dir = join (home e) ''results'';
          fsys1 = (if \<not> path_exists fsys base_dir then makedirs base_dir fsys else fsys);
          timestamp = stamp e
      in if file_type = ''image'' then (join base_dir (''detection_'' @ timestamp @ ''.jpg''), fsys1)
         else if file_type = ''video'' then (join base_dir (''video_'' @ timestamp @ ''.mp4''), fsys1)
         else if file_type = ''csv'' then (join base_dir (''history_'' @ timestamp @ ''.csv''), fsys1)
         else (join base_dir (''result_'' @ timestamp), fsys1))"

definition basename :: "string \<Rightarrow> string" where
  "basename p = rev (takeWhile (\<lambda>c. c \<noteq> CHR ''/'') (rev p))"

section \<open>widgets.py: the tabs\<close>

text \<open>
  The slots of the tabs that touch the detector. A file dialog is given as the path it
  returns, empty when the user cancels; a question dialog as its answer.
\<close>

definition save_result ::
  "env \<Rightarrow> string \<Rightarrow> filesystem \<Rightarrow> HandSignDetector \<Rightarrow> ui_event list \<times> filesystem" where
  "save_result e file_path fsys detector =
     (if current_frame detector = None then ([], fsys)
      else
        case get_default_save_path e ''image'' fsys of
          (default_path, fsys1) \<Rightarrow>
            if file_path \<noteq> [] then
              (case save_current_frame e file_path fsys1 detector of
                 (True, fsys2) \<Rightarrow>
                   ([Status_message (''Detection result saved: '' @ basename file_path)], fsys2)
               | (False, fsys2) \<Rightarrow>
                   ([Status_message ''Saving the detection result failed''], fsys2))
            else ([], fsys1))"

definition update_progress :: "image \<Rightarrow> HandSignDetector \<Rightarrow> HandSignDetector" where
  "update_progress frame detector = detector\<lparr>current_frame := Some frame\<rparr>"

definition update_frame :: "image \<Rightarrow> HandSignDetector \<Rightarrow> HandSignDetector" where
  "update_frame frame detector = detector\<lparr>current_frame := Some frame\<rparr>"

definition take_snapshot ::
  "env \<Rightarrow> bool \<Rightarrow> string \<Rightarrow> filesystem \<Rightarrow> HandSignDetector \<Rightarrow> ui_event list \<times> filesystem" where
  "take_snapshot e detection_active file_path fsys detector =
     (if \<not> detection_active \<or> current_frame detector = None then ([], fsys)
      else
        case get_default_save_path e ''image'' fsys of
          (default_path, fsys1) \<Rightarrow>
            if file_path \<noteq> [] then
              (case save_current_frame e file_path fsys1 detector of
                 (True, fsys2) \<Rightarrow>
                   ([Status_message (''Camera snapshot saved: '' @ basename file_path)], fsys2)
               | (False, fsys2) \<Rightarrow>
                   ([Status_message ''Saving the camera snapshot failed''], fsys2))
            else ([], fsys1))"

definition update_history_table :: "HandSignDetector \<Rightarrow> ui_event list" where
  "update_history_table detector = [Status_message ''Detection history refreshed'']"

definition export_history ::
  "env \<Rightarrow> string \<Rightarrow> filesystem \<Rightarrow> HandSignDetector \<Rightarrow> ui_event list \<times> filesystem" where
  "export_history e file_path fsys detector =
     (let history = get_detection_history detector
      in if history = []
         then ([Info_message ''Export failed'' ''No history data to export''], fsys)
         else
           case get_default_save_path e ''csv'' fsys of
             (default_path, fsys1) \<Rightarrow>
               if file_path \<noteq> [] then
                 (case export_detection_history history file_path fsys1 of
                    (True, fsys2) \<Rightarrow>
                      ([Status_message (''History data exported: '' @ basename file_path),
                        Info_message ''Export succeeded''
                          (''History data exported to: '' @ file_path)], fsys2)
                  | (False, fsys2) \<Rightarrow>
                      ([Status_message ''Exporting the history data failed'',
                        Error_message ''Export failed'' ''Cannot export the history data''],
                       fsys2))
               else ([], fsys1))"

definition clear_history :: "bool \<Rightarrow> HandSignDetector \<Rightarrow> ui_event list \<times> HandSignDetector" where
  "clear_history confirm detector =
     (if detection_history detector = []
      then ([Info_message ''Clear history'' ''The history is already empty''], detector)
      else if confirm
      then ([Question_message ''Confirm clearing''
               ''Clear all history records? This cannot be undone.'']
              @ update_history_table (detector\<lparr>detection_history := []\<rparr>)
              @ [Status_message ''History cleared''],
            detector\<lparr>detection_history := []\<rparr>)
      else ([Question_message ''Confirm clearing''
               ''Clear all history records? This cannot be undone.''], detector))"

section \<open>The operations on the shared detector\<close>

text \<open>
  Every method of the detector and every worker and slot of the interface that reads or
  writes the detector, as one step on the file system and the detector. A step that never
  returns has no successor state.
\<close>

datatype operation =
    Op_detect_image string
  | Op_detect_video string "string option" bool
  | Op_detect_webcam int "(nat \<Rightarrow> bool) option" bool
  | Op_get_detection_history
  | Op_save_current_frame string
  | Op_ImageDetectionWorker string
  | Op_VideoDetectionWorker string "string option" "nat \<Rightarrow> bool"
  | Op_WebcamDetectionThread int "nat \<Rightarrow> bool"
  | Op_save_result string
  | Op_update_progress image
  | Op_update_frame image
  | Op_take_snapshot bool string
  | Op_update_history_table
  | Op_export_history string
  | Op_clear_history bool

fun step ::
  "env \<Rightarrow> operation \<Rightarrow> filesystem \<times> HandSignDetector
     \<Rightarrow> (filesystem \<times> HandSignDetector) option" where
  "step e (Op_detect_image image_path) (fsys, d) =
     Some (fsys, snd (detect_image e fsys image_path d))"
| "step e (Op_detect_video video_path output_path has_callback) (fsys, d) =
     Some (snd (snd (detect_video e video_path output_path has_callback fsys d)))"
| "step e (Op_detect_webcam cam_id stop_signal has_callback) (fsys, d) =
     (case detect_webcam e cam_id stop_signal has_callback d of
        None \<Rightarrow> None
      | Some (res, calls, d1) \<Rightarrow> Some (fsys, d1))"
| "step e Op_get_detection_history (fsys, d) = Some (fsys, d)"
| "step e (Op_save_current_frame save_path) (fsys, d) =
     Some (snd (save_current_frame e save_path fsys d), d)"
| "step e (Op_ImageDetectionWorker image_path) (fsys, d) =
     Some (fsys, snd (ImageDetectionWorker_run e fsys image_path d))"
| "step e (Op_VideoDetectionWorker video_path output_path is_running) (fsys, d) =
     Some (snd (VideoDetectionWorker_run e video_path output_path is_running fsys d))"
| "step e (Op_WebcamDetectionThread cam_id running) (fsys, d) =
     (case WebcamDetectionThread_run e cam_id running d of
        None \<Rightarrow> None
      | Some (sigs, d1) \<Rightarrow> Some (fsys, d1))"
| "step e (Op_save_result file_path) (fsys, d) = Some (snd (save_result e file_path fsys d), d)"
| "step e (Op_update_progress frame) (fsys, d) = Some (fsys, update_progress frame d)"
| "step e (Op_update_frame frame) (fsys, d) = Some (fsys, update_frame frame d)"
| "step e (Op_take_snapshot detection_active file_path) (fsys, d) =
     Some (snd (take_snapshot e detection_active file_path fsys d), d)"
| "step e Op_update_history_table (fsys, d) = Some (fsys, d)"
| "step e (Op_export_history file_path) (fsys, d) =
     Some (snd (export_history e file_path fsys d), d)"
| "step e (Op_clear_history confirm) (fsys, d) = Some (fsys, snd (clear_history confirm d))"

section \<open>A concrete world\<close>

text \<open>
  A small world on which the runs can be evaluated: a model that finds two boxes in every
  image, camera 0 that delivers frames forever, camera 1 that opens and fails at the first
  read, every other camera failing to open, and a file system with the weights, an image,
  a video of three frames that reports three, and a video of one frame that reports none.
\<close>

definition test_predict :: "yolo \<Rightarrow> image \<Rightarrow> Results" where
  "test_predict m img = \<lparr>boxes = [Box 1, Box 7], plot = 0 # img\<rparr>"

definition test_cameras :: "int \<Rightarrow> camera" where
  "test_cameras cam_id =
     (if cam_id = 0 then \<lparr>cam_isOpened = True, cam_read = (\<lambda>n. Some [n])\<rparr>
      else if cam_id = 1 then \<lparr>cam_isOpened = True, cam_read = (\<lambda>n. None)\<rparr>
      else \<lparr>cam_isOpened = False, cam_read = (\<lambda>n. None)\<rparr>)"

definition test_env :: env where
  "test_env =
     \<lparr>predict = test_predict, cameras = test_cameras, start_time = 10, end_time = 12,
      now = ''2025-01-01 00:00:00'', stamp = ''20250101_000000'', home = ''/home/u'',
      imwrite_ok = (\<lambda>p. True)\<rparr>"

definition test_fs :: filesystem where
  "test_fs =
     \<lparr>dirs = [''/data''],
      files =
        [(''best.pt'', OtherFile),
         (''/data/a.jpg'', ImageFile [1, 2, 3]),
         (''/data/v.mp4'',
            VideoFile \<lparr>CAP_PROP_FPS = 25, CAP_PROP_FRAME_COUNT = 3, CAP_PROP_FRAME_WIDTH = 4,
                       CAP_PROP_FRAME_HEIGHT = 2, stream = [[1], [2], [3]]\<rparr>),
         (''/data/z.mp4'',
            VideoFile \<lparr>CAP_PROP_FPS = 25, CAP_PROP_FRAME_COUNT = 0, CAP_PROP_FRAME_WIDTH = 4,
                       CAP_PROP_FRAME_HEIGHT = 2, stream = [[5]]\<rparr>)]\<rparr>"

definition test_detector :: HandSignDetector where
  "test_detector = init test_fs (Some ''best.pt'')"

section \<open>Evaluation\<close>

lemmas test_defs = test_predict_def test_cameras_def test_env_def test_fs_def test_detector_def
  init_def path_exists_def imread_def VideoCapture_def prepare_output_def release_output_def
  write_file_def makedirs_def VideoWriter_file_def Let_def

section \<open>The loops\<close>

text \<open>
  The video loops leave the history and the model alone, fail only in the division of the
  progress computation, and leave the last annotated frame in the detector.
\<close>

lemma detect_video_loop_history:
  "detect_video_loop mc ho hc fc frames L self = (r, L', self') \<Longrightarrow>
     detection_history self' = detection_history self \<and> model self' = model self"
  by (induction frames arbitrary: L self) (auto simp: Let_def split: if_splits)

lemma detect_video_loop_no_error:
  "fc \<noteq> 0 \<Longrightarrow> fst (detect_video_loop mc ho hc fc frames L self) = None"
  by (induction frames arbitrary: L self) (auto simp: Let_def)

lemma detect_video_loop_zero:
  "fst (detect_video_loop mc ho hc 0 (frame # rest) L self) = Some ZeroDivisionError"
  by (simp add: Let_def)

lemma detect_video_loop_error:
  "detect_video_loop mc ho hc fc frames L self = (Some err, L', self') \<Longrightarrow>
     err = ZeroDivisionError \<and> fc = 0 \<and> frames \<noteq> []"
  by (induction frames arbitrary: L self) (auto simp: Let_def split: if_splits)

lemma detect_video_loop_current_frame:
  "detect_video_loop mc ho hc fc frames L self = (None, L', self') \<Longrightarrow> frames \<noteq> [] \<Longrightarrow>
     current_frame self' = Some (plot (mc (last frames)))"
proof (induction frames arbitrary: L self)
  case Nil
  then show ?case by simp
next
  case (Cons frame rest)
  show ?case
  proof (cases rest)
    case Nil
    with Cons.prems show ?thesis by (auto simp: Let_def split: if_splits)
  next
    case (Cons f2 rest2)
    with Cons.prems Cons.IH show ?thesis by (auto simp: Let_def split: if_splits)
  qed
qed

lemma detect_video_loop_all_results:
  "detect_video_loop mc ho hc fc frames L self = (None, L', self') \<Longrightarrow>
     all_results L' = all_results L @ map mc frames \<and> frame_idx L' = frame_idx L + length frames"
  by (induction frames arbitrary: L self) (auto simp: Let_def split: if_splits)

lemma video_worker_loop_error:
  "video_worker_loop mc ho fc run frames L = (Some err, L') \<Longrightarrow>
     err = ZeroDivisionError \<and> fc = 0"
  by (induction frames arbitrary: L) (auto simp: Let_def split: if_splits)

lemma video_worker_loop_zero:
  "run (frame_idx L) \<Longrightarrow>
     fst (video_worker_loop mc ho 0 run (frame # rest) L) = Some ZeroDivisionError"
  by (simp add: Let_def)

lemma video_worker_loop_no_error:
  "fc \<noteq> 0 \<Longrightarrow> fst (video_worker_loop mc ho fc run frames L) = None"
  by (induction frames arbitrary: L) (auto simp: Let_def)

lemma video_worker_loop_count:
  "video_worker_loop mc ho fc run frames L = (None, L') \<Longrightarrow>
     frame_idx L \<le> frame_idx L' \<and> frame_idx L' \<le> frame_idx L + length frames
     \<and> length (all_results L') = length (all_results L) + (frame_idx L' - frame_idx L)"
  by (induction frames arbitrary: L) (fastforce simp: Let_def split: if_splits)+

text \<open>
  The webcam loops: what holds when they return, and that they return as soon as a stop
  is requested or a read fails.
\<close>

lemma webcam_thread_loop_sound:
  assumes "webcam_thread_loop mc run read L = Some L'"
  shows "frame_count L \<le> frame_count L'
     \<and> (frame_count L < frame_count L') = (run (frame_count L) \<and> read (frame_count L) \<noteq> None)
     \<and> length (frame_calls L') = length (frame_calls L) + (frame_count L' - frame_count L)"
  using assms
proof (rule webcam_thread_loop.raw_induct [rotated, where P = "\<lambda>mc run read L L'.
     frame_count L \<le> frame_count L'
     \<and> (frame_count L < frame_count L') = (run (frame_count L) \<and> read (frame_count L) \<noteq> None)
     \<and> length (frame_calls L') = length (frame_calls L) + (frame_count L' - frame_count L)"])
  fix loop :: "(image \<Rightarrow> Results) \<Rightarrow> (nat \<Rightarrow> bool) \<Rightarrow> (nat \<Rightarrow> image option)
                 \<Rightarrow> webcam_locals \<Rightarrow> webcam_locals option"
    and mc :: "image \<Rightarrow> Results" and run :: "nat \<Rightarrow> bool" and read :: "nat \<Rightarrow> image option"
    and L L' :: webcam_locals
  assume IH: "\<And>mc run read L L'. loop mc run read L = Some L' \<Longrightarrow>
     frame_count L \<le> frame_count L'
     \<and> (frame_count L < frame_count L') = (run (frame_count L) \<and> read (frame_count L) \<noteq> None)
     \<and> length (frame_calls L') = length (frame_calls L) + (frame_count L' - frame_count L)"
  assume body: "(if \<not> run (frame_count L) then Some L
      else case read (frame_count L) of
        None \<Rightarrow> Some L
      | Some frame \<Rightarrow>
          loop mc run read
            (L\<lparr>frame_calls := frame_calls L @ [(plot (mc frame), mc frame)],
               frame_count := frame_count L + 1\<rparr>)) = Some L'"
  show "frame_count L \<le> frame_count L'
     \<and> (frame_count L < frame_count L') = (run (frame_count L) \<and> read (frame_count L) \<noteq> None)
     \<and> length (frame_calls L') = length (frame_calls L) + (frame_count L' - frame_count L)"
  proof (cases "run (frame_count L)")
    case False
    with body show ?thesis by simp
  next
    case True
    show ?thesis
    proof (cases "read (frame_count L)")
      case None
      with True body show ?thesis by simp
    next
      case (Some frame)
      with True body have "loop mc run read
          (L\<lparr>frame_calls := frame_calls L @ [(plot (mc frame), mc frame)],
             frame_count := frame_count L + 1\<rparr>) = Some L'" by simp
      from IH [OF this] True Some show ?thesis by auto
    qed
  qed
qed

lemma webcam_thread_loop_terminates:
  "\<not> run n \<or> read n = None \<Longrightarrow> frame_count L \<le> n \<Longrightarrow>
     webcam_thread_loop mc run read L \<noteq> None"
proof (induction "n - frame_count L" arbitrary: L)
  case 0
  then have "frame_count L = n" by simp
  with 0 show ?case by (subst webcam_thread_loop.simps) auto
next
  case (Suc k)
  show ?case
  proof (cases "run (frame_count L)")
    case False
    then show ?thesis by (subst webcam_thread_loop.simps) simp
  next
    case True
    show ?thesis
    proof (cases "read (frame_count L)")
      case None
      with True show ?thesis by (subst webcam_thread_loop.simps) simp
    next
      case (Some frame)
      let ?L = "L\<lparr>frame_calls := frame_calls L @ [(plot (mc frame), mc frame)],
             frame_count := frame_count L + 1\<rparr>"
      from Suc.hyps(2) have "k = n - frame_count ?L" by simp
      moreover from Suc.hyps(2) have "frame_count ?L \<le> n" by simp
      ultimately have "webcam_thread_loop mc run read ?L \<noteq> None"
        using Suc.hyps(1) Suc.prems(1) by blast
      with True Some show ?thesis by (subst webcam_thread_loop.simps) simp
    qed
  qed
qed

lemma detect_webcam_loop_sound:
  assumes "detect_webcam_loop mc stop cb read L self = Some (L', self')"
  shows "frame_count L \<le> frame_count L'
     \<and> (stop_requested stop (frame_count L') \<or> read (frame_count L') = None)
     \<and> (frame_count L < frame_count L')
         = (\<not> stop_requested stop (frame_count L) \<and> read (frame_count L) \<noteq> None)
     \<and> (frame_count L < frame_count L' \<longrightarrow>
          (\<exists>frame. read (frame_count L' - 1) = Some frame
             \<and> current_frame self' = Some (plot (mc frame))))
     \<and> (frame_count L' = frame_count L \<longrightarrow> self' = self)
     \<and> detection_history self' = detection_history self
     \<and> model self' = model self"
proof -
  define P :: "(image \<Rightarrow> Results) \<Rightarrow> (nat \<Rightarrow> bool) option \<Rightarrow> (nat \<Rightarrow> image option)
                 \<Rightarrow> webcam_locals \<Rightarrow> HandSignDetector
                 \<Rightarrow> webcam_locals \<times> HandSignDetector \<Rightarrow> bool"
    where "P = (\<lambda>mc stop read L self y.
       frame_count L \<le> frame_count (fst y)
     \<and> (stop_requested stop (frame_count (fst y)) \<or> read (frame_count (fst y)) = None)
     \<and> (frame_count L < frame_count (fst y))
         = (\<not> stop_requested stop (frame_count L) \<and> read (frame_count L) \<noteq> None)
     \<and> (frame_count L < frame_count (fst y) \<longrightarrow>
          (\<exists>frame. read (frame_count (fst y) - 1) = Some frame
             \<and> current_frame (snd y) = Some (plot (mc frame))))
     \<and> (frame_count (fst y) = frame_count L \<longrightarrow> snd y = self)
     \<and> detection_history (snd y) = detection_history self
     \<and> model (snd y) = model self)"
  have "P mc stop read L self (L', self')"
    using assms
  proof (rule detect_webcam_loop.raw_induct
           [rotated, where P = "\<lambda>mc stop cb read L self y. P mc stop read L self y"])
    fix loop :: "(image \<Rightarrow> Results) \<Rightarrow> (nat \<Rightarrow> bool) option \<Rightarrow> bool \<Rightarrow> (nat \<Rightarrow> image option)
                   \<Rightarrow> webcam_locals \<Rightarrow> HandSignDetector
                   \<Rightarrow> (webcam_locals \<times> HandSignDetector) option"
      and mc :: "image \<Rightarrow> Results" and stop :: "(nat \<Rightarrow> bool) option" and cb :: bool
      and read :: "nat \<Rightarrow> image option" and L :: webcam_locals and self :: HandSignDetector
      and y :: "webcam_locals \<times> HandSignDetector"
    assume IH: "\<And>mc stop cb read L self y.
                  loop mc stop cb read L self = Some y \<Longrightarrow> P mc stop read L self y"
    assume body: "(if stop_requested stop (frame_count L) then Some (L, self)
      else case read (frame_count L) of
        None \<Rightarrow> Some (L, self)
      | Some frame \<Rightarrow>
          loop mc stop cb read
            ((if cb
              then L\<lparr>frame_calls := frame_calls L @ [(plot (mc frame), mc frame)]\<rparr>
              else L)\<lparr>frame_count := frame_count L + 1\<rparr>)
            (self\<lparr>current_frame := Some (plot (mc frame)),
                  results := Some (Results_one (mc frame))\<rparr>)) = Some y"
    show "P mc stop read L self y"
    proof (cases "stop_requested stop (frame_count L)")
      case True
      with body show ?thesis by (auto simp: P_def)
    next
      case False
      show ?thesis
      proof (cases "read (frame_count L)")
        case None
        with False body show ?thesis by (auto simp: P_def)
      next
        case (Some frame)
        let ?L = "(if cb
              then L\<lparr>frame_calls := frame_calls L @ [(plot (mc frame), mc frame)]\<rparr>
              else L)\<lparr>frame_count := frame_count L + 1\<rparr>"
        let ?self = "self\<lparr>current_frame := Some (plot (mc frame)),
                  results := Some (Results_one (mc frame))\<rparr>"
        from False Some body have "loop mc stop cb read ?L ?self = Some y" by simp
        from IH [OF this] have step: "P mc stop read ?L ?self y" .
        have fc: "frame_count ?L = frame_count L + 1" by simp
        show ?thesis
        proof (cases "frame_count (fst y) = frame_count L + 1")
          case True
          with step fc False Some show ?thesis
            unfolding P_def by auto
        next
          case neq: False
          with step fc False Some show ?thesis
            unfolding P_def by auto
        qed
      qed
    qed
  qed
  then show ?thesis by (simp add: P_def)
qed

lemma detect_webcam_loop_terminates:
  "stop_requested stop n \<or> read n = None \<Longrightarrow> frame_count L \<le> n \<Longrightarrow>
     detect_webcam_loop mc stop cb read L self \<noteq> None"
proof (induction "n - frame_count L" arbitrary: L self)
  case 0
  then have "frame_count L = n" by simp
  with 0 show ?case by (subst detect_webcam_loop.simps) auto
next
  case (Suc k)
  show ?case
  proof (cases "stop_requested stop (frame_count L)")
    case True
    then show ?thesis by (subst detect_webcam_loop.simps) simp
  next
    case False
    show ?thesis
    proof (cases "read (frame_count L)")
      case None
      with False show ?thesis by (subst detect_webcam_loop.simps) simp
    next
      case (Some frame)
      let ?L = "(if cb
              then L\<lparr>frame_calls := frame_calls L @ [(plot (mc frame), mc frame)]\<rparr>
              else L)\<lparr>frame_count := frame_count L + 1\<rparr>"
      let ?self = "self\<lparr>current_frame := Some (plot (mc frame)),
                  results := Some (Results_one (mc frame))\<rparr>"
      from Suc.hyps(2) have "k = n - frame_count ?L" by simp
      moreover from Suc.hyps(2) have "frame_count ?L \<le> n" by simp
      ultimately have "detect_webcam_loop mc stop cb read ?L ?self \<noteq> None"
        using Suc.hyps(1) Suc.prems(1) by blast
      with False Some show ?thesis by (subst detect_webcam_loop.simps) simp
    qed
  qed
qed

lemma detect_webcam_loop_processed:
  assumes "detect_webcam_loop mc stop cb read L self = Some (L', self')"
  shows "\<forall>k. frame_count L \<le> k \<and> k < frame_count L'
           \<longrightarrow> \<not> stop_requested stop k \<and> read k \<noteq> None"
proof -
  define P :: "(nat \<Rightarrow> bool) option \<Rightarrow> (nat \<Rightarrow> image option)
                 \<Rightarrow> webcam_locals \<Rightarrow> webcam_locals \<times> HandSignDetector \<Rightarrow> bool"
    where "P = (\<lambda>stop read L y.
       \<forall>k. frame_count L \<le> k \<and> k < frame_count (fst y)
           \<longrightarrow> \<not> stop_requested stop k \<and> read k \<noteq> None)"
  have "P stop read L (L', self')"
    using assms
  proof (rule detect_webcam_loop.raw_induct
           [rotated, where P = "\<lambda>mc stop cb read L self y. P stop read L y"])
    fix loop :: "(image \<Rightarrow> Results) \<Rightarrow> (nat \<Rightarrow> bool) option \<Rightarrow> bool \<Rightarrow> (nat \<Rightarrow> image option)
                   \<Rightarrow> webcam_locals \<Rightarrow> HandSignDetector
                   \<Rightarrow> (webcam_locals \<times> HandSignDetector) option"
      and mc :: "image \<Rightarrow> Results" and stop :: "(nat \<Rightarrow> bool) option" and cb :: bool
      and read :: "nat \<Rightarrow> image option" and L :: webcam_locals and self :: HandSignDetector
      and y :: "webcam_locals \<times> HandSignDetector"
    assume IH: "\<And>mc stop cb read L self y.
                  loop mc stop cb read L self = Some y \<Longrightarrow> P stop read L y"
    assume body: "(if stop_requested stop (frame_count L) then Some (L, self)
      else case read (frame_count L) of
        None \<Rightarrow> Some (L, self)
      | Some frame \<Rightarrow>
          loop mc stop cb read
            ((if cb
              then L\<lparr>frame_calls := frame_calls L @ [(plot (mc frame), mc frame)]\<rparr>
              else L)\<lparr>frame_count := frame_count L + 1\<rparr>)
            (self\<lparr>current_frame := Some (plot (mc frame)),
                  results := Some (Results_one (mc frame))\<rparr>)) = Some y"
    show "P stop read L y"
    proof (cases "stop_requested stop (frame_count L)")
      case True
      with body have "fst y = L" by auto
      then show ?thesis by (auto simp: P_def)
    next
      case False
      show ?thesis
      proof (cases "read (frame_count L)")
        case None
        with False body have "fst y = L" by auto
        then show ?thesis by (auto simp: P_def)
      next
        case (Some frame)
        let ?L = "(if cb
              then L\<lparr>frame_calls := frame_calls L @ [(plot (mc frame), mc frame)]\<rparr>
              else L)\<lparr>frame_count := frame_count L + 1\<rparr>"
        let ?self = "self\<lparr>current_frame := Some (plot (mc frame)),
                  results := Some (Results_one (mc frame))\<rparr>"
        from False Some body have "loop mc stop cb read ?L ?self = Some y" by simp
        from IH [OF this] have step: "P stop read ?L y" .
        have fc: "frame_count ?L = Suc (frame_count L)" by simp
        show ?thesis
          unfolding P_def
        proof (intro allI impI)
          fix k
          assume k: "frame_count L \<le> k \<and> k < frame_count (fst y)"
          show "\<not> stop_requested stop k \<and> read k \<noteq> None"
          proof (cases "k = frame_count L")
            case True
            with False Some show ?thesis by simp
          next
            case later: False
            with k have "Suc (frame_count L) \<le> k" by arith
            with k fc have "frame_count ?L \<le> k \<and> k < frame_count (fst y)" by simp
            moreover from step
            have "frame_count ?L \<le> k \<and> k < frame_count (fst y)
                    \<longrightarrow> \<not> stop_requested stop k \<and> read k \<noteq> None"
              unfolding P_def by (rule spec)
            ultimately show ?thesis by (rule rev_mp)
          qed
        qed
      qed
    qed
  qed
  then show ?thesis by (simp add: P_def)
qed

section \<open>Video runs\<close>

lemma detect_video_Inr:
  assumes "detect_video e video_path output_path has_callback fsys self = (Inr ret, calls, fsys', self')"
  shows "\<exists>cap L self1. VideoCapture fsys video_path = Some cap
           \<and> detect_video_loop (predict e (model self)) (truthy output_path) has_callback
                (CAP_PROP_FRAME_COUNT cap) (stream cap)
                \<lparr>all_results = [], frame_idx = 0, written = [], progress_calls = []\<rparr> self
              = (None, L, self1)
           \<and> self' = self1\<lparr>detection_history := detection_history self1 @
                [[(''type'', PStr ''video''),
                  (''source'', PStr video_path),
                  (''timestamp'', PStr (now e)),
                  (''frames'', PInt (CAP_PROP_FRAME_COUNT cap)),
                  (''processing_time'', PFloat (end_time e - start_time e))]]\<rparr>"
  using assms
  by (auto simp: detect_video_def Let_def split: if_splits option.splits prod.splits)

lemma detect_video_Inl:
  assumes "detect_video e video_path output_path has_callback fsys self = (Inl err, calls, fsys', self')"
  shows "detection_history self' = detection_history self"
  using assms
  by (auto simp: detect_video_def Let_def split: if_splits option.splits prod.splits
           dest: detect_video_loop_history)

lemma VideoDetectionWorker_run_not_failed:
  assumes "VideoDetectionWorker_run e video_path output_path is_running fsys detector
             = (sigs, fsys', detector')"
    and "\<not> failed sigs"
  shows "\<exists>cap. VideoCapture fsys video_path = Some cap
           \<and> detector' = detector\<lparr>detection_history := detection_history detector @
                [[(''type'', PStr ''video''),
                  (''source'', PStr video_path),
                  (''timestamp'', PStr (now e)),
                  (''frames'', PInt (CAP_PROP_FRAME_COUNT cap)),
                  (''processing_time'', PFloat (end_time e - start_time e))]]\<rparr>"
  using assms
  by (auto simp: VideoDetectionWorker_run_def Let_def failed_def
           split: if_splits option.splits prod.splits)

lemma VideoDetectionWorker_run_failed:
  assumes "VideoDetectionWorker_run e video_path output_path is_running fsys detector
             = (sigs, fsys', detector')"
    and "failed sigs"
  shows "detector' = detector"
  using assms
  by (auto simp: VideoDetectionWorker_run_def Let_def failed_def
           split: if_splits option.splits prod.splits)

text \<open>
  C1. A video run that returns appends a record whose frame count is the total the
  container reports (\<^verbatim>\<open>CAP_PROP_FRAME_COUNT\<close>): in \<^verbatim>\<open>detect_video\<close>, which reads to the
  end of the stream, and in the worker for every schedule of the stop flag, so also when
  the run is stopped early and fewer frames were processed.
\<close>

theorem video_record_reports_container_total:
  "(detect_video e video_path output_path has_callback fsys self = (Inr ret, calls, fsys1, self')
      \<longrightarrow> (\<exists>cap info. VideoCapture fsys video_path = Some cap
             \<and> detection_history self' = detection_history self @ [info]
             \<and> map_of info ''frames'' = Some (PInt (CAP_PROP_FRAME_COUNT cap))))
   \<and> (VideoDetectionWorker_run e video_path output_path is_running fsys detector
         = (sigs, fsys2, detector') \<and> \<not> failed sigs
      \<longrightarrow> (\<exists>cap info. VideoCapture fsys video_path = Some cap
             \<and> detection_history detector' = detection_history detector @ [info]
             \<and> map_of info ''frames'' = Some (PInt (CAP_PROP_FRAME_COUNT cap))))"
proof (intro conjI impI)
  assume "detect_video e video_path output_path has_callback fsys self = (Inr ret, calls, fsys1, self')"
  from detect_video_Inr [OF this] obtain cap L self1 where
    cap: "VideoCapture fsys video_path = Some cap"
    and loop: "detect_video_loop (predict e (model self)) (truthy output_path) has_callback
                (CAP_PROP_FRAME_COUNT cap) (stream cap)
                \<lparr>all_results = [], frame_idx = 0, written = [], progress_calls = []\<rparr> self
              = (None, L, self1)"
    and self': "self' = self1\<lparr>detection_history := detection_history self1 @
                [[(''type'', PStr ''video''),
                  (''source'', PStr video_path),
                  (''timestamp'', PStr (now e)),
                  (''frames'', PInt (CAP_PROP_FRAME_COUNT cap)),
                  (''processing_time'', PFloat (end_time e - start_time e))]]\<rparr>"
    by blast
  from detect_video_loop_history [OF loop]
  have "detection_history self1 = detection_history self" by simp
  with cap self' show "\<exists>cap info. VideoCapture fsys video_path = Some cap
             \<and> detection_history self' = detection_history self @ [info]
             \<and> map_of info ''frames'' = Some (PInt (CAP_PROP_FRAME_COUNT cap))"
    by simp
next
  assume "VideoDetectionWorker_run e video_path output_path is_running fsys detector
         = (sigs, fsys2, detector') \<and> \<not> failed sigs"
  then have run: "VideoDetectionWorker_run e video_path output_path is_running fsys detector
         = (sigs, fsys2, detector')" and ok: "\<not> failed sigs" by simp_all
  from VideoDetectionWorker_run_not_failed [OF run ok]
  show "\<exists>cap info. VideoCapture fsys video_path = Some cap
             \<and> detection_history detector' = detection_history detector @ [info]
             \<and> map_of info ''frames'' = Some (PInt (CAP_PROP_FRAME_COUNT cap))"
    by auto
qed

lemma test_detect_video:
  "detect_video test_env ''/data/v.mp4'' None False test_fs test_detector =
     (Inr (Some [0, 3],
        [\<lparr>boxes = [Box 1, Box 7], plot = [0, 1]\<rparr>,
         \<lparr>boxes = [Box 1, Box 7], plot = [0, 2]\<rparr>,
         \<lparr>boxes = [Box 1, Box 7], plot = [0, 3]\<rparr>]),
      [], test_fs,
      \<lparr>model = YOLO ''best.pt'',
       results = Some (Results_one \<lparr>boxes = [Box 1, Box 7], plot = [0, 3]\<rparr>),
       current_frame = Some [0, 3],
       detection_history =
         [[(''type'', PStr ''video''), (''source'', PStr ''/data/v.mp4''),
           (''timestamp'', PStr ''2025-01-01 00:00:00''),
           (''frames'', PInt 3), (''processing_time'', PFloat 2)]]\<rparr>)"
  by (simp add: detect_video_def test_defs)

lemma test_video_worker_stopped:
  "VideoDetectionWorker_run test_env ''/data/v.mp4'' None (\<lambda>n. n < 1) test_fs test_detector =
     ([Progress_signal (Progress 1 3) [0, 1],
       Result_signal (Video_result None [\<lparr>boxes = [Box 1, Box 7], plot = [0, 1]\<rparr>]),
       Finished],
      test_fs,
      \<lparr>model = YOLO ''best.pt'', results = None, current_frame = None,
       detection_history =
         [[(''type'', PStr ''video''), (''source'', PStr ''/data/v.mp4''),
           (''timestamp'', PStr ''2025-01-01 00:00:00''),
           (''frames'', PInt 3), (''processing_time'', PFloat 2)]]\<rparr>)"
  by (simp add: VideoDetectionWorker_run_def test_defs)

text \<open>
  The video of three frames, read to its end by \<^verbatim>\<open>detect_video\<close> and stopped after one
  frame in the worker: both records say three frames, and the stopped run delivered one
  result.
\<close>

theorem video_record_reports_container_total_witness:
  "\<exists>ret calls fsys1 self' sigs fsys2 detector' r.
     detect_video test_env ''/data/v.mp4'' None False test_fs test_detector
       = (Inr ret, calls, fsys1, self')
     \<and> VideoDetectionWorker_run test_env ''/data/v.mp4'' None (\<lambda>n. n < 1) test_fs test_detector
       = (sigs, fsys2, detector')
     \<and> \<not> failed sigs
     \<and> Result_signal (Video_result None [r]) \<in> set sigs
     \<and> (\<exists>cap info. VideoCapture test_fs ''/data/v.mp4'' = Some cap
             \<and> detection_history self' = detection_history test_detector @ [info]
             \<and> map_of info ''frames'' = Some (PInt (CAP_PROP_FRAME_COUNT cap)))
     \<and> (\<exists>cap info. VideoCapture test_fs ''/data/v.mp4'' = Some cap
             \<and> CAP_PROP_FRAME_COUNT cap = 3
             \<and> detection_history detector' = detection_history test_detector @ [info]
             \<and> map_of info ''frames'' = Some (PInt (CAP_PROP_FRAME_COUNT cap)))"
proof -
  have nf: "\<not> failed [Progress_signal (Progress 1 3) [0, 1],
       Result_signal (Video_result None [\<lparr>boxes = [Box 1, Box 7], plot = [0, 1]\<rparr>]),
       Finished]"
    by (simp add: failed_def)
  have cap3: "\<And>cap. VideoCapture test_fs ''/data/v.mp4'' = Some cap \<Longrightarrow> CAP_PROP_FRAME_COUNT cap = 3"
    by (auto simp: test_defs)
  from video_record_reports_container_total
         [of test_env "''/data/v.mp4''" None False test_fs test_detector _ _ _ _ "\<lambda>n. n < 1"
             test_detector]
       test_detect_video test_video_worker_stopped nf cap3
  show ?thesis
    by (metis insert_iff list.simps(15))
qed

section \<open>Image runs\<close>

text \<open>
  C3. A successful image run appends exactly one record; its kind is \<open>image\<close> and its
  detection count is the number of boxes the model returned for the image read.
\<close>

theorem image_run_appends_one_image_record:
  "detect_image e fsys image_path self = (Inr (annotated_img, r), self') \<Longrightarrow>
     \<exists>img info. imread fsys image_path = Some img
       \<and> r = predict e (model self) img
       \<and> detection_history self' = detection_history self @ [info]
       \<and> map_of info ''type'' = Some (PStr ''image'')
       \<and> map_of info ''detections'' = Some (PInt (int (length (boxes r))))"
  by (auto simp: detect_image_def Let_def split: if_splits option.splits)

lemma test_detect_image:
  "detect_image test_env test_fs ''/data/a.jpg'' test_detector =
     (Inr ([0, 1, 2, 3], \<lparr>boxes = [Box 1, Box 7], plot = [0, 1, 2, 3]\<rparr>),
      \<lparr>model = YOLO ''best.pt'',
       results = Some (Results_list [\<lparr>boxes = [Box 1, Box 7], plot = [0, 1, 2, 3]\<rparr>]),
       current_frame = Some [1, 2, 3],
       detection_history =
         [[(''type'', PStr ''image''), (''source'', PStr ''/data/a.jpg''),
           (''timestamp'', PStr ''2025-01-01 00:00:00''),
           (''detections'', PInt 2), (''processing_time'', PFloat 2),
           (''classes'', PIntList [1, 7])]]\<rparr>)"
  by (simp add: detect_image_def test_defs)

theorem image_run_appends_one_image_record_witness:
  "\<exists>annotated_img r self'.
     detect_image test_env test_fs ''/data/a.jpg'' test_detector = (Inr (annotated_img, r), self')
     \<and> length (boxes r) = 2
     \<and> (\<exists>img info. imread test_fs ''/data/a.jpg'' = Some img
           \<and> r = predict test_env (model test_detector) img
           \<and> detection_history self' = detection_history test_detector @ [info]
           \<and> map_of info ''type'' = Some (PStr ''image'')
           \<and> map_of info ''detections'' = Some (PInt (int (length (boxes r)))))"
proof -
  from image_run_appends_one_image_record [OF test_detect_image]
  have "\<exists>img info. imread test_fs ''/data/a.jpg'' = Some img
           \<and> \<lparr>boxes = [Box 1, Box 7], plot = [0, 1, 2, 3]\<rparr> = predict test_env (model test_detector) img
           \<and> detection_history  \<lparr>model = YOLO ''best.pt'',
       results = Some (Results_list [\<lparr>boxes = [Box 1, Box 7], plot = [0, 1, 2, 3]\<rparr>]),
       current_frame = Some [1, 2, 3],
       detection_history =
         [[(''type'', PStr ''image''), (''source'', PStr ''/data/a.jpg''),
           (''timestamp'', PStr ''2025-01-01 00:00:00''),
           (''detections'', PInt 2), (''processing_time'', PFloat 2),
           (''classes'', PIntList [1, 7])]]\<rparr> = detection_history test_detector @ [info]
           \<and> map_of info ''type'' = Some (PStr ''image'')
           \<and> map_of info ''detections'' = Some (PInt (int (length (boxes \<lparr>boxes = [Box 1, Box 7], plot = [0, 1, 2, 3]\<rparr>))))" .
  with test_detect_image show ?thesis by simp
qed

section \<open>Construction\<close>

text \<open>
  C8. The constructor loads the default pretrained model \<^verbatim>\<open>yolo11n.pt\<close> when the model
  path is absent or names nothing on disk, and the model at the path when it exists.
\<close>

theorem init_falls_back_to_default_model:
  "model (init fsys None) = YOLO ''yolo11n.pt''
   \<and> (\<not> path_exists fsys p \<longrightarrow> model (init fsys (Some p)) = YOLO ''yolo11n.pt'')
   \<and> (path_exists fsys q \<longrightarrow> model (init fsys (Some q)) = YOLO q)"
  by (simp add: init_def)

theorem init_falls_back_to_default_model_witness:
  "\<not> path_exists test_fs ''custom.pt'' \<and> path_exists test_fs ''best.pt''
   \<and> model (init test_fs None) = YOLO ''yolo11n.pt''
   \<and> model (init test_fs (Some ''custom.pt'')) = YOLO ''yolo11n.pt''
   \<and> model (init test_fs (Some ''best.pt'')) = YOLO ''best.pt''"
proof -
  have missing: "\<not> path_exists test_fs ''custom.pt''" and present: "path_exists test_fs ''best.pt''"
    by (simp_all add: path_exists_def test_fs_def)
  from init_falls_back_to_default_model [of test_fs "''custom.pt''" "''best.pt''"] missing present
  show ?thesis by blast
qed

section \<open>A camera that does not open\<close>

text \<open>
  C4. When the camera does not open, the webcam thread emits its error signal and nothing
  else, \<^verbatim>\<open>detect_webcam\<close> raises, and in both the detector, and with it the history, is
  left as it was.
\<close>

theorem camera_open_failure_appends_no_record:
  "\<not> cam_isOpened (cameras e cam_id) \<Longrightarrow>
     WebcamDetectionThread_run e cam_id running detector
       = Some ([Error_signal (Camera_open_failed cam_id)], detector)
     \<and> detect_webcam e cam_id stop_signal has_callback detector
       = Some (Inl (ValueError_camera cam_id), [], detector)"
  by (simp add: WebcamDetectionThread_run_def detect_webcam_def)

theorem camera_open_failure_appends_no_record_witness:
  "\<not> cam_isOpened (cameras test_env 2)
   \<and> WebcamDetectionThread_run test_env 2 (\<lambda>n. True) test_detector
       = Some ([Error_signal (Camera_open_failed 2)], test_detector)
   \<and> detect_webcam test_env 2 None False test_detector
       = Some (Inl (ValueError_camera 2), [], test_detector)"
proof -
  have closed: "\<not> cam_isOpened (cameras test_env 2)"
    by (simp add: test_env_def test_cameras_def)
  from camera_open_failure_appends_no_record [OF closed, of "\<lambda>n. True" test_detector None False] closed
  show ?thesis by simp
qed

section \<open>The history tab\<close>

text \<open>
  C6. Clearing an empty history changes nothing and answers with the information dialog
  that says the history is already empty; no error is raised or shown.
\<close>

theorem clear_empty_history_is_noop:
  "detection_history detector = [] \<Longrightarrow>
     clear_history confirm detector
       = ([Info_message ''Clear history'' ''The history is already empty''], detector)"
  by (simp add: clear_history_def)

theorem clear_empty_history_is_noop_witness:
  "detection_history test_detector = []
   \<and> clear_history True test_detector
       = ([Info_message ''Clear history'' ''The history is already empty''], test_detector)"
proof -
  have empty: "detection_history test_detector = []"
    by (simp add: test_detector_def init_def)
  from clear_empty_history_is_noop [OF empty, of True] empty show ?thesis by simp
qed

text \<open>
  C7. Exporting an empty history fails and leaves the file system as it was: the function
  of \<^verbatim>\<open>utils\<close> returns \<open>False\<close>, and the slot of the history tab shows the failure
  dialog before it asks for a path.
\<close>

theorem export_empty_history_writes_nothing:
  "export_detection_history [] export_path fsys = (False, fsys)
   \<and> (detection_history detector = [] \<longrightarrow>
        export_history e file_path fsys detector
          = ([Info_message ''Export failed'' ''No history data to export''], fsys))"
  by (simp add: export_detection_history_def export_history_def get_detection_history_def)

theorem export_empty_history_writes_nothing_witness:
  "detection_history test_detector = []
   \<and> export_detection_history [] ''/out/h.csv'' test_fs = (False, test_fs)
   \<and> export_history test_env ''/out/h.csv'' test_fs test_detector
          = ([Info_message ''Export failed'' ''No history data to export''], test_fs)"
proof -
  have empty: "detection_history test_detector = []"
    by (simp add: test_detector_def init_def)
  from export_empty_history_writes_nothing
         [of "''/out/h.csv''" test_fs test_detector test_env "''/out/h.csv''"] empty
  show ?thesis by simp
qed

section \<open>The progress computation\<close>

lemma VideoCapture_exists: "VideoCapture fsys p = Some cap \<Longrightarrow> path_exists fsys p"
  by (auto simp: VideoCapture_def path_exists_def split: option.splits)

lemma detect_video_loop_zero_result:
  "\<exists>L' self'. detect_video_loop mc ho hc 0 (frame # rest) L self = (Some ZeroDivisionError, L', self')
     \<and> detection_history self' = detection_history self"
  by (simp add: Let_def)

lemma video_worker_loop_zero_result:
  "run (frame_idx L) \<Longrightarrow>
     \<exists>L'. video_worker_loop mc ho 0 run (frame # rest) L = (Some ZeroDivisionError, L')
       \<and> progress_calls L' = progress_calls L"
  by (simp add: Let_def)

text \<open>
  C10. The progress value is \<^verbatim>\<open>frame_idx / frame_count * 100\<close> with no guard. When the
  container reports no frames and the first read delivers a frame, \<^verbatim>\<open>detect_video\<close>
  raises \<^verbatim>\<open>ZeroDivisionError\<close> and appends no record; the worker, when its flag is still
  set at the first check, emits that error and \<open>Finished\<close> and nothing else, and leaves the
  detector as it was.
\<close>

theorem zero_frame_count_aborts_video_run:
  "(VideoCapture fsys video_path = Some cap \<and> CAP_PROP_FRAME_COUNT cap = 0 \<and> stream cap \<noteq> []
      \<longrightarrow> (\<exists>calls fsys1 self'.
             detect_video e video_path output_path has_callback fsys self
               = (Inl ZeroDivisionError, calls, fsys1, self')
             \<and> detection_history self' = detection_history self))
   \<and> (VideoCapture fsys video_path = Some cap \<and> CAP_PROP_FRAME_COUNT cap = 0 \<and> stream cap \<noteq> []
        \<and> is_running 0
      \<longrightarrow> (\<exists>fsys2.
             VideoDetectionWorker_run e video_path output_path is_running fsys detector
               = ([Error_signal (Exception_text ZeroDivisionError), Finished], fsys2, detector)))"
proof (intro conjI impI)
  assume h: "VideoCapture fsys video_path = Some cap \<and> CAP_PROP_FRAME_COUNT cap = 0 \<and> stream cap \<noteq> []"
  then obtain frame rest where fr: "stream cap = frame # rest" by (cases "stream cap") auto
  from h have ex: "path_exists fsys video_path" by (simp add: VideoCapture_exists)
  from detect_video_loop_zero_result
         [of "predict e (model self)" "truthy output_path" has_callback frame rest
             "\<lparr>all_results = [], frame_idx = 0, written = [], progress_calls = []\<rparr>" self]
  obtain L' self1 where
    loop: "detect_video_loop (predict e (model self)) (truthy output_path) has_callback 0
             (frame # rest) \<lparr>all_results = [], frame_idx = 0, written = [], progress_calls = []\<rparr> self
           = (Some ZeroDivisionError, L', self1)"
    and hist: "detection_history self1 = detection_history self"
    by blast
  from h fr ex loop hist
  show "\<exists>calls fsys1 self'.
             detect_video e video_path output_path has_callback fsys self
               = (Inl ZeroDivisionError, calls, fsys1, self')
             \<and> detection_history self' = detection_history self"
    by (simp add: detect_video_def Let_def)
next
  assume h: "VideoCapture fsys video_path = Some cap \<and> CAP_PROP_FRAME_COUNT cap = 0 \<and> stream cap \<noteq> []
        \<and> is_running 0"
  then obtain frame rest where fr: "stream cap = frame # rest" by (cases "stream cap") auto
  from h have "is_running (frame_idx \<lparr>all_results = [], frame_idx = 0, written = [], progress_calls = []\<rparr>)"
    by simp
  with video_worker_loop_zero_result
         [of is_running "\<lparr>all_results = [], frame_idx = 0, written = [], progress_calls = []\<rparr>"
             "predict e (model detector)" "truthy output_path" frame rest]
  obtain L' where
    loop: "video_worker_loop (predict e (model detector)) (truthy output_path) 0 is_running
             (frame # rest) \<lparr>all_results = [], frame_idx = 0, written = [], progress_calls = []\<rparr>
           = (Some ZeroDivisionError, L')"
    and calls: "progress_calls L' = []"
    by auto
  from h fr loop calls
  show "\<exists>fsys2.
             VideoDetectionWorker_run e video_path output_path is_running fsys detector
               = ([Error_signal (Exception_text ZeroDivisionError), Finished], fsys2, detector)"
    by (simp add: VideoDetectionWorker_run_def Let_def)
qed

theorem zero_frame_count_aborts_video_run_witness:
  "\<exists>cap. VideoCapture test_fs ''/data/z.mp4'' = Some cap \<and> CAP_PROP_FRAME_COUNT cap = 0
     \<and> stream cap \<noteq> []
     \<and> (\<exists>calls fsys1 self'.
             detect_video test_env ''/data/z.mp4'' None False test_fs test_detector
               = (Inl ZeroDivisionError, calls, fsys1, self')
             \<and> detection_history self' = detection_history test_detector)
     \<and> (\<exists>fsys2.
             VideoDetectionWorker_run test_env ''/data/z.mp4'' None (\<lambda>n. True) test_fs test_detector
               = ([Error_signal (Exception_text ZeroDivisionError), Finished], fsys2, test_detector))"
proof -
  let ?cap = "\<lparr>CAP_PROP_FPS = 25, CAP_PROP_FRAME_COUNT = 0, CAP_PROP_FRAME_WIDTH = 4,
                CAP_PROP_FRAME_HEIGHT = 2, stream = [[5]]\<rparr>"
  have cap: "VideoCapture test_fs ''/data/z.mp4'' = Some ?cap"
    by (simp add: VideoCapture_def test_fs_def)
  have props: "CAP_PROP_FRAME_COUNT ?cap = 0 \<and> stream ?cap \<noteq> []" by simp
  from zero_frame_count_aborts_video_run
         [of test_fs "''/data/z.mp4''" ?cap test_env None False test_detector "\<lambda>n. True" test_detector]
       cap props
  show ?thesis by blast
qed

section \<open>The current frame\<close>

lemma detect_image_current_frame:
  assumes "detect_image e fsys image_path self = (Inr (annotated_img, r), self')"
  shows "\<exists>img. imread fsys image_path = Some img
           \<and> current_frame self' = Some img
           \<and> annotated_img = plot (predict e (model self) img)"
  using assms
  by (auto simp: detect_image_def Let_def split: if_splits option.splits)

lemma save_current_frame_writes_slot:
  assumes "current_frame self = Some img" and "imwrite_ok e save_path"
  shows "\<exists>fsys1. save_current_frame e save_path fsys self = (True, fsys1)
           \<and> map_of (files fsys1) save_path = Some (ImageFile img)"
  using assms
  by (simp add: save_current_frame_def Let_def write_file_def makedirs_def)

lemma detect_video_current_frame:
  assumes "detect_video e video_path output_path has_callback fsys self = (Inr ret, calls, fsys1, self')"
  shows "\<exists>cap. VideoCapture fsys video_path = Some cap
           \<and> (stream cap \<noteq> [] \<longrightarrow>
                current_frame self' = Some (plot (predict e (model self) (last (stream cap)))))"
proof -
  from detect_video_Inr [OF assms] obtain cap L self1 where
    cap: "VideoCapture fsys video_path = Some cap"
    and loop: "detect_video_loop (predict e (model self)) (truthy output_path) has_callback
                (CAP_PROP_FRAME_COUNT cap) (stream cap)
                \<lparr>all_results = [], frame_idx = 0, written = [], progress_calls = []\<rparr> self
              = (None, L, self1)"
    and self': "self' = self1\<lparr>detection_history := detection_history self1 @
                [[(''type'', PStr ''video''),
                  (''source'', PStr video_path),
                  (''timestamp'', PStr (now e)),
                  (''frames'', PInt (CAP_PROP_FRAME_COUNT cap)),
                  (''processing_time'', PFloat (end_time e - start_time e))]]\<rparr>"
    by blast
  from self' have same: "current_frame self' = current_frame self1" by simp
  have "stream cap \<noteq> [] \<longrightarrow>
          current_frame self1 = Some (plot (predict e (model self) (last (stream cap))))"
    using detect_video_loop_current_frame [OF loop] by blast
  with cap same show ?thesis by simp
qed

lemma detect_webcam_Inr:
  assumes "detect_webcam e cam_id stop_signal has_callback self = Some (Inr ret, calls, self')"
  shows "\<exists>L self1. detect_webcam_loop (predict e (model self)) stop_signal has_callback
                      (cam_read (cameras e cam_id)) \<lparr>frame_count = 0, frame_calls = []\<rparr> self
                    = Some (L, self1)
           \<and> cam_isOpened (cameras e cam_id)
           \<and> self' = self1\<lparr>detection_history := detection_history self1 @
                [[(''type'', PStr ''webcam''),
                  (''source'', PCamLabel cam_id),
                  (''timestamp'', PStr (now e)),
                  (''frames'', PInt (int (frame_count L))),
                  (''processing_time'', PFloat (end_time e - start_time e))]]\<rparr>"
  using assms
  by (auto simp: detect_webcam_def Let_def split: if_splits option.splits prod.splits)

lemma detect_webcam_current_frame:
  assumes "detect_webcam e cam_id stop_signal has_callback self = Some (Inr ret, calls, self')"
  shows "\<exists>n. (stop_requested stop_signal n \<or> cam_read (cameras e cam_id) n = None)
           \<and> (\<forall>k. k < n \<longrightarrow> \<not> stop_requested stop_signal k \<and> cam_read (cameras e cam_id) k \<noteq> None)
           \<and> (0 < n \<longrightarrow>
                (\<exists>frame. cam_read (cameras e cam_id) (n - 1) = Some frame
                   \<and> current_frame self' = Some (plot (predict e (model self) frame))))"
proof -
  from detect_webcam_Inr [OF assms] obtain L self1 where
    loop: "detect_webcam_loop (predict e (model self)) stop_signal has_callback
                      (cam_read (cameras e cam_id)) \<lparr>frame_count = 0, frame_calls = []\<rparr> self
                    = Some (L, self1)"
    and self': "self' = self1\<lparr>detection_history := detection_history self1 @
                [[(''type'', PStr ''webcam''),
                  (''source'', PCamLabel cam_id),
                  (''timestamp'', PStr (now e)),
                  (''frames'', PInt (int (frame_count L))),
                  (''processing_time'', PFloat (end_time e - start_time e))]]\<rparr>"
    by blast
  from self' have same: "current_frame self' = current_frame self1" by simp
  from detect_webcam_loop_sound [OF loop]
  have ended: "stop_requested stop_signal (frame_count L)
                 \<or> cam_read (cameras e cam_id) (frame_count L) = None"
    and last: "0 < frame_count L \<longrightarrow>
                (\<exists>frame. cam_read (cameras e cam_id) (frame_count L - 1) = Some frame
                   \<and> current_frame self1 = Some (plot (predict e (model self) frame)))"
    by simp_all
  from detect_webcam_loop_processed [OF loop]
  have before: "\<forall>k. k < frame_count L
                  \<longrightarrow> \<not> stop_requested stop_signal k \<and> cam_read (cameras e cam_id) k \<noteq> None"
    by simp
  from ended before last same show ?thesis
    by (intro exI [of _ "frame_count L"]) simp
qed

text \<open>
  C9. After a successful image run the slot \<^verbatim>\<open>current_frame\<close> holds the image as it was
  read, while the caller gets the plotted one; \<^verbatim>\<open>save_current_frame\<close>, when the write
  succeeds, then stores the image as read. After a video run that processed a frame the
  slot holds the plot of the last frame of the stream, and after a webcam run that
  processed \<open>n > 0\<close> frames the plot of frame \<open>n - 1\<close>, the last one read.
\<close>

theorem image_run_keeps_unannotated_frame:
  "(detect_image e fsys image_path self = (Inr (annotated_img, r), self1)
      \<longrightarrow> (\<exists>img. imread fsys image_path = Some img
             \<and> current_frame self1 = Some img
             \<and> annotated_img = plot (predict e (model self) img)
             \<and> (imwrite_ok e save_path \<longrightarrow>
                  (\<exists>fsys1. save_current_frame e save_path fsys self1 = (True, fsys1)
                     \<and> map_of (files fsys1) save_path = Some (ImageFile img)))))
   \<and> (detect_video e video_path output_path has_callback fsys self = (Inr vret, vcalls, fsys2, self2)
      \<longrightarrow> (\<exists>cap. VideoCapture fsys video_path = Some cap
             \<and> (stream cap \<noteq> [] \<longrightarrow>
                  current_frame self2 = Some (plot (predict e (model self) (last (stream cap)))))))
   \<and> (detect_webcam e cam_id stop_signal has_frame_callback self = Some (Inr wret, wcalls, self3)
      \<longrightarrow> (\<exists>n. (stop_requested stop_signal n \<or> cam_read (cameras e cam_id) n = None)
             \<and> (\<forall>k. k < n \<longrightarrow> \<not> stop_requested stop_signal k
                                \<and> cam_read (cameras e cam_id) k \<noteq> None)
             \<and> (0 < n \<longrightarrow>
                  (\<exists>frame. cam_read (cameras e cam_id) (n - 1) = Some frame
                     \<and> current_frame self3 = Some (plot (predict e (model self) frame))))))"
proof (intro conjI impI)
  assume run: "detect_image e fsys image_path self = (Inr (annotated_img, r), self1)"
  from detect_image_current_frame [OF run] obtain img where
    img: "imread fsys image_path = Some img" "current_frame self1 = Some img"
         "annotated_img = plot (predict e (model self) img)"
    by blast
  have "imwrite_ok e save_path \<longrightarrow>
          (\<exists>fsys1. save_current_frame e save_path fsys self1 = (True, fsys1)
             \<and> map_of (files fsys1) save_path = Some (ImageFile img))"
    using save_current_frame_writes_slot [OF img(2)] by blast
  with img show "\<exists>img. imread fsys image_path = Some img
             \<and> current_frame self1 = Some img
             \<and> annotated_img = plot (predict e (model self) img)
             \<and> (imwrite_ok e save_path \<longrightarrow>
                  (\<exists>fsys1. save_current_frame e save_path fsys self1 = (True, fsys1)
                     \<and> map_of (files fsys1) save_path = Some (ImageFile img)))"
    by blast
next
  assume "detect_video e video_path output_path has_callback fsys self = (Inr vret, vcalls, fsys2, self2)"
  then show "\<exists>cap. VideoCapture fsys video_path = Some cap
             \<and> (stream cap \<noteq> [] \<longrightarrow>
                  current_frame self2 = Some (plot (predict e (model self) (last (stream cap)))))"
    by (rule detect_video_current_frame)
next
  assume "detect_webcam e cam_id stop_signal has_frame_callback self = Some (Inr wret, wcalls, self3)"
  then show "\<exists>n. (stop_requested stop_signal n \<or> cam_read (cameras e cam_id) n = None)
             \<and> (\<forall>k. k < n \<longrightarrow> \<not> stop_requested stop_signal k
                                \<and> cam_read (cameras e cam_id) k \<noteq> None)
             \<and> (0 < n \<longrightarrow>
                  (\<exists>frame. cam_read (cameras e cam_id) (n - 1) = Some frame
                     \<and> current_frame self3 = Some (plot (predict e (model self) frame))))"
    by (rule detect_webcam_current_frame)
qed

lemma test_detect_webcam_stopped:
  "detect_webcam test_env 0 (Some (\<lambda>n. 2 \<le> n)) True test_detector =
     Some (Inr (Some [0, 1], Some (Results_one \<lparr>boxes = [Box 1, Box 7], plot = [0, 1]\<rparr>)),
           [([0, 0], \<lparr>boxes = [Box 1, Box 7], plot = [0, 0]\<rparr>),
            ([0, 1], \<lparr>boxes = [Box 1, Box 7], plot = [0, 1]\<rparr>)],
           \<lparr>model = YOLO ''best.pt'',
            results = Some (Results_one \<lparr>boxes = [Box 1, Box 7], plot = [0, 1]\<rparr>),
            current_frame = Some [0, 1],
            detection_history =
              [[(''type'', PStr ''webcam''), (''source'', PCamLabel 0),
                (''timestamp'', PStr ''2025-01-01 00:00:00''),
                (''frames'', PInt 2), (''processing_time'', PFloat 2)]]\<rparr>)"
  by (simp add: detect_webcam_def detect_webcam_loop.simps test_defs)

text \<open>
  The image, the video of three frames, and camera 0 stopped at the third check: the slot
  holds the image as read, then the plot of the third frame, then the plot of the second
  camera frame.
\<close>

theorem image_run_keeps_unannotated_frame_witness:
  "\<exists>annotated_img r self1 vret vcalls fsys2 self2 wret wcalls self3.
     detect_image test_env test_fs ''/data/a.jpg'' test_detector = (Inr (annotated_img, r), self1)
     \<and> detect_video test_env ''/data/v.mp4'' None False test_fs test_detector
         = (Inr vret, vcalls, fsys2, self2)
     \<and> detect_webcam test_env 0 (Some (\<lambda>n. 2 \<le> n)) True test_detector
         = Some (Inr wret, wcalls, self3)
     \<and> imwrite_ok test_env ''/out/s.jpg''
     \<and> current_frame self1 = Some [1, 2, 3] \<and> annotated_img = [0, 1, 2, 3]
     \<and> current_frame self2 = Some [0, 3]
     \<and> current_frame self3 = Some [0, 1]
     \<and> (\<exists>img. imread test_fs ''/data/a.jpg'' = Some img
             \<and> current_frame self1 = Some img
             \<and> annotated_img = plot (predict test_env (model test_detector) img)
             \<and> (\<exists>fsys1. save_current_frame test_env ''/out/s.jpg'' test_fs self1 = (True, fsys1)
                     \<and> map_of (files fsys1) ''/out/s.jpg'' = Some (ImageFile img)))
     \<and> (\<exists>cap. VideoCapture test_fs ''/data/v.mp4'' = Some cap \<and> stream cap \<noteq> []
             \<and> current_frame self2
                 = Some (plot (predict test_env (model test_detector) (last (stream cap)))))
     \<and> (\<exists>n. (stop_requested (Some (\<lambda>n. 2 \<le> n)) n \<or> cam_read (cameras test_env 0) n = None)
             \<and> (\<forall>k. k < n \<longrightarrow> \<not> stop_requested (Some (\<lambda>n. 2 \<le> n)) k
                                \<and> cam_read (cameras test_env 0) k \<noteq> None)
             \<and> (0 < n \<longrightarrow>
                  (\<exists>frame. cam_read (cameras test_env 0) (n - 1) = Some frame
                     \<and> current_frame self3
                         = Some (plot (predict test_env (model test_detector) frame)))))"
proof -
  from test_detect_image obtain annotated_img r self1 where
    run1: "detect_image test_env test_fs ''/data/a.jpg'' test_detector
             = (Inr (annotated_img, r), self1)"
    and v1: "current_frame self1 = Some [1, 2, 3]" "annotated_img = [0, 1, 2, 3]"
    by simp
  from test_detect_video obtain vret vcalls fsys2 self2 where
    run2: "detect_video test_env ''/data/v.mp4'' None False test_fs test_detector
             = (Inr vret, vcalls, fsys2, self2)"
    and v2: "current_frame self2 = Some [0, 3]"
    by simp
  from test_detect_webcam_stopped obtain wret wcalls self3 where
    run3: "detect_webcam test_env 0 (Some (\<lambda>n. 2 \<le> n)) True test_detector
             = Some (Inr wret, wcalls, self3)"
    and v3: "current_frame self3 = Some [0, 1]"
    by simp
  have w: "imwrite_ok test_env ''/out/s.jpg''" by (simp add: test_env_def)
  have s: "\<And>cap. VideoCapture test_fs ''/data/v.mp4'' = Some cap \<Longrightarrow> stream cap \<noteq> []"
    by (auto simp: VideoCapture_def test_fs_def)
  note T = image_run_keeps_unannotated_frame
             [of test_env test_fs "''/data/a.jpg''" test_detector annotated_img r self1
                 "''/out/s.jpg''" "''/data/v.mp4''" None False vret vcalls fsys2 self2
                 0 "Some (\<lambda>n. 2 \<le> n)" True wret wcalls self3]
  from T run1 w
  have A: "\<exists>img. imread test_fs ''/data/a.jpg'' = Some img
             \<and> current_frame self1 = Some img
             \<and> annotated_img = plot (predict test_env (model test_detector) img)
             \<and> (\<exists>fsys1. save_current_frame test_env ''/out/s.jpg'' test_fs self1 = (True, fsys1)
                     \<and> map_of (files fsys1) ''/out/s.jpg'' = Some (ImageFile img))"
    by blast
  from T run2 s
  have B: "\<exists>cap. VideoCapture test_fs ''/data/v.mp4'' = Some cap \<and> stream cap \<noteq> []
             \<and> current_frame self2
                 = Some (plot (predict test_env (model test_detector) (last (stream cap))))"
    by blast
  from T run3
  have C: "\<exists>n. (stop_requested (Some (\<lambda>n. 2 \<le> n)) n \<or> cam_read (cameras test_env 0) n = None)
             \<and> (\<forall>k. k < n \<longrightarrow> \<not> stop_requested (Some (\<lambda>n. 2 \<le> n)) k
                                \<and> cam_read (cameras test_env 0) k \<noteq> None)
             \<and> (0 < n \<longrightarrow>
                  (\<exists>frame. cam_read (cameras test_env 0) (n - 1) = Some frame
                     \<and> current_frame self3
                         = Some (plot (predict test_env (model test_detector) frame))))"
    by blast
  from run1 run2 run3 w v1 v2 v3 A B C show ?thesis by blast
qed

section \<open>Webcam runs\<close>

lemma WebcamDetectionThread_run_record:
  assumes "WebcamDetectionThread_run e cam_id running detector = Some (sigs, detector')"
    and "cam_isOpened (cameras e cam_id)"
  shows "(running 0 \<and> cam_read (cameras e cam_id) 0 \<noteq> None
            \<longrightarrow> (\<exists>info. detection_history detector' = detection_history detector @ [info]
                   \<and> map_of info ''type'' = Some (PStr ''webcam'')))
         \<and> (\<not> (running 0 \<and> cam_read (cameras e cam_id) 0 \<noteq> None) \<longrightarrow> detector' = detector)"
proof -
  from assms obtain L where
    loop: "webcam_thread_loop (predict e (model detector)) running (cam_read (cameras e cam_id))
             \<lparr>frame_count = 0, frame_calls = []\<rparr> = Some L"
    by (auto simp: WebcamDetectionThread_run_def Let_def split: option.splits)
  from webcam_thread_loop_sound [OF loop]
  have pos: "(0 < frame_count L) = (running 0 \<and> cam_read (cameras e cam_id) 0 \<noteq> None)"
    by simp
  from assms loop pos show ?thesis
    by (auto simp: WebcamDetectionThread_run_def Let_def split: if_splits)
qed

lemma WebcamDetectionThread_run_returns:
  assumes "\<not> running n \<or> cam_read (cameras e cam_id) n = None"
  shows "WebcamDetectionThread_run e cam_id running detector \<noteq> None"
proof -
  from assms
  have "webcam_thread_loop (predict e (model detector)) running (cam_read (cameras e cam_id))
          \<lparr>frame_count = 0, frame_calls = []\<rparr> \<noteq> None"
    by (rule webcam_thread_loop_terminates) simp
  then show ?thesis
    by (auto simp: WebcamDetectionThread_run_def Let_def)
qed

lemma detect_webcam_returns:
  assumes "stop_requested stop_signal n \<or> cam_read (cameras e cam_id) n = None"
  shows "detect_webcam e cam_id stop_signal has_callback self \<noteq> None"
proof -
  from assms
  have "detect_webcam_loop (predict e (model self)) stop_signal has_callback
          (cam_read (cameras e cam_id)) \<lparr>frame_count = 0, frame_calls = []\<rparr> self \<noteq> None"
    by (rule detect_webcam_loop_terminates) simp
  then show ?thesis
    by (auto simp: detect_webcam_def Let_def)
qed

lemma detect_webcam_always_appends:
  assumes "detect_webcam e cam_id stop_signal has_callback self = Some (Inr ret, calls, self')"
  shows "\<exists>info. detection_history self' = detection_history self @ [info]
           \<and> map_of info ''type'' = Some (PStr ''webcam'')"
proof -
  from detect_webcam_Inr [OF assms] obtain L self1 where
    loop: "detect_webcam_loop (predict e (model self)) stop_signal has_callback
                      (cam_read (cameras e cam_id)) \<lparr>frame_count = 0, frame_calls = []\<rparr> self
                    = Some (L, self1)"
    and self': "self' = self1\<lparr>detection_history := detection_history self1 @
                [[(''type'', PStr ''webcam''),
                  (''source'', PCamLabel cam_id),
                  (''timestamp'', PStr (now e)),
                  (''frames'', PInt (int (frame_count L))),
                  (''processing_time'', PFloat (end_time e - start_time e))]]\<rparr>"
    by blast
  from detect_webcam_loop_sound [OF loop]
  have "detection_history self1 = detection_history self" by simp
  with self' show ?thesis by simp
qed

text \<open>
  C2. The webcam thread appends a record exactly when a frame was processed (lemma
  \<open>WebcamDetectionThread_run_record\<close>). \<^verbatim>\<open>detect_webcam\<close> has no such guard: on
  camera 1, which opens and fails at the first read, it processes no frame, returns
  normally and appends a record that says zero frames.
\<close>

theorem detect_webcam_records_run_without_frames:
  "detect_webcam test_env 1 None False test_detector =
     Some (Inr (None, None), [],
           \<lparr>model = YOLO ''best.pt'', results = None, current_frame = None,
            detection_history =
              [[(''type'', PStr ''webcam''), (''source'', PCamLabel 1),
                (''timestamp'', PStr ''2025-01-01 00:00:00''),
                (''frames'', PInt 0), (''processing_time'', PFloat 2)]]\<rparr>)
   \<and> WebcamDetectionThread_run test_env 1 (\<lambda>n. True) test_detector = Some ([], test_detector)
   \<and> detection_history test_detector = []"
  by (simp add: detect_webcam_def detect_webcam_loop.simps WebcamDetectionThread_run_def
        webcam_thread_loop.simps test_defs)

section \<open>The history log\<close>

lemma detect_image_history:
  "detection_history (snd (detect_image e fsys image_path self)) = detection_history self
   \<or> (\<exists>info. detection_history (snd (detect_image e fsys image_path self))
                = detection_history self @ [info])"
  by (auto simp: detect_image_def Let_def split: option.splits)

lemma ImageDetectionWorker_run_history:
  "detection_history (snd (ImageDetectionWorker_run e fsys image_path d)) = detection_history d
   \<or> (\<exists>info. detection_history (snd (ImageDetectionWorker_run e fsys image_path d))
                = detection_history d @ [info])"
  using detect_image_history [of e fsys image_path d]
  by (auto simp: ImageDetectionWorker_run_def split: prod.splits sum.splits)

lemma detect_video_Inr_history:
  assumes "detect_video e video_path output_path has_callback fsys self = (Inr ret, calls, fsys', self')"
  shows "\<exists>info. detection_history self' = detection_history self @ [info]"
proof -
  from detect_video_Inr [OF assms] obtain cap L self1 where
    cap: "VideoCapture fsys video_path = Some cap"
    and loop: "detect_video_loop (predict e (model self)) (truthy output_path) has_callback
                (CAP_PROP_FRAME_COUNT cap) (stream cap)
                \<lparr>all_results = [], frame_idx = 0, written = [], progress_calls = []\<rparr> self
              = (None, L, self1)"
    and self': "self' = self1\<lparr>detection_history := detection_history self1 @
                [[(''type'', PStr ''video''),
                  (''source'', PStr video_path),
                  (''timestamp'', PStr (now e)),
                  (''frames'', PInt (CAP_PROP_FRAME_COUNT cap)),
                  (''processing_time'', PFloat (end_time e - start_time e))]]\<rparr>"
    by blast
  from detect_video_loop_history [OF loop]
  have "detection_history self1 = detection_history self" by simp
  with self' show ?thesis by simp
qed

lemma detect_video_history:
  "detection_history (snd (snd (snd (detect_video e video_path output_path has_callback fsys d))))
     = detection_history d
   \<or> (\<exists>info. detection_history
                 (snd (snd (snd (detect_video e video_path output_path has_callback fsys d))))
                = detection_history d @ [info])"
proof -
  obtain res calls fsys1 d1 where
    run: "detect_video e video_path output_path has_callback fsys d = (res, calls, fsys1, d1)"
    by (cases "detect_video e video_path output_path has_callback fsys d") auto
  show ?thesis
  proof (cases res)
    case (Inl err)
    with run detect_video_Inl [of e video_path output_path has_callback fsys d err calls fsys1 d1]
    show ?thesis by simp
  next
    case (Inr ret)
    with run detect_video_Inr_history [of e video_path output_path has_callback fsys d ret calls fsys1 d1]
    show ?thesis by simp
  qed
qed

lemma VideoDetectionWorker_run_history:
  "detection_history
     (snd (snd (VideoDetectionWorker_run e video_path output_path is_running fsys d)))
     = detection_history d
   \<or> (\<exists>info. detection_history
                 (snd (snd (VideoDetectionWorker_run e video_path output_path is_running fsys d)))
                = detection_history d @ [info])"
proof -
  obtain sigs fsys1 d1 where
    run: "VideoDetectionWorker_run e video_path output_path is_running fsys d = (sigs, fsys1, d1)"
    by (cases "VideoDetectionWorker_run e video_path output_path is_running fsys d") auto
  show ?thesis
  proof (cases "failed sigs")
    case True
    with run VideoDetectionWorker_run_failed [OF run] show ?thesis by simp
  next
    case False
    from VideoDetectionWorker_run_not_failed [OF run False] run show ?thesis by auto
  qed
qed

lemma detect_webcam_history:
  assumes "detect_webcam e cam_id stop_signal has_callback d = Some (res, calls, d1)"
  shows "detection_history d1 = detection_history d
         \<or> (\<exists>info. detection_history d1 = detection_history d @ [info])"
proof (cases res)
  case (Inl err)
  with assms have "d1 = d"
    by (auto simp: detect_webcam_def Let_def split: if_splits option.splits prod.splits)
  then show ?thesis by simp
next
  case (Inr ret)
  with assms detect_webcam_always_appends [of e cam_id stop_signal has_callback d ret calls d1]
  show ?thesis by blast
qed

lemma WebcamDetectionThread_run_history:
  assumes "WebcamDetectionThread_run e cam_id running d = Some (sigs, d1)"
  shows "detection_history d1 = detection_history d
         \<or> (\<exists>info. detection_history d1 = detection_history d @ [info])"
  using assms
  by (auto simp: WebcamDetectionThread_run_def Let_def split: if_splits option.splits)

lemma clear_history_history:
  "detection_history (snd (clear_history confirm d)) = detection_history d
   \<or> detection_history (snd (clear_history confirm d)) = []"
  by (simp add: clear_history_def)

text \<open>
  C5. Every operation on the detector that returns leaves the history as it was, or
  appends one record at its end and keeps the records before it in their order, or leaves
  the log empty. A record is appended whether or not an equal one is already in the log.
\<close>

theorem history_grows_or_is_cleared:
  assumes "step e op (fsys, d) = Some (fsys', d')"
  shows "detection_history d' = detection_history d
         \<or> (\<exists>info. detection_history d' = detection_history d @ [info])
         \<or> detection_history d' = []"
proof (cases op)
  case (Op_detect_image image_path)
  with assms detect_image_history [of e fsys image_path d] show ?thesis by auto
next
  case (Op_detect_video video_path output_path has_callback)
  with assms detect_video_history [of e video_path output_path has_callback fsys d]
  show ?thesis by auto
next
  case (Op_detect_webcam cam_id stop_signal has_callback)
  with assms obtain res calls where
    "detect_webcam e cam_id stop_signal has_callback d = Some (res, calls, d')"
    by (auto split: option.splits)
  from detect_webcam_history [OF this] show ?thesis by blast
next
  case Op_get_detection_history
  with assms show ?thesis by simp
next
  case (Op_save_current_frame save_path)
  with assms show ?thesis by simp
next
  case (Op_ImageDetectionWorker image_path)
  with assms ImageDetectionWorker_run_history [of e fsys image_path d] show ?thesis by auto
next
  case (Op_VideoDetectionWorker video_path output_path is_running)
  with assms VideoDetectionWorker_run_history [of e video_path output_path is_running fsys d]
  show ?thesis by auto
next
  case (Op_WebcamDetectionThread cam_id running)
  with assms obtain sigs where
    "WebcamDetectionThread_run e cam_id running d = Some (sigs, d')"
    by (auto split: option.splits)
  from WebcamDetectionThread_run_history [OF this] show ?thesis by blast
next
  case (Op_save_result file_path)
  with assms show ?thesis by simp
next
  case (Op_update_progress frame)
  with assms show ?thesis by (auto simp: update_progress_def)
next
  case (Op_update_frame frame)
  with assms show ?thesis by (auto simp: update_frame_def)
next
  case (Op_take_snapshot detection_active file_path)
  with assms show ?thesis by simp
next
  case Op_update_history_table
  with assms show ?thesis by simp
next
  case (Op_export_history file_path)
  with assms show ?thesis by simp
next
  case (Op_clear_history confirm)
  with assms clear_history_history [of confirm d] show ?thesis by auto
qed

text \<open>
  An image run on the empty log, and a confirmed clear after it: the first step appends,
  the second leaves the log empty.
\<close>

theorem history_grows_or_is_cleared_witness:
  "\<exists>fsys1 d1 fsys2 d2.
     step test_env (Op_detect_image ''/data/a.jpg'') (test_fs, test_detector) = Some (fsys1, d1)
     \<and> step test_env (Op_clear_history True) (fsys1, d1) = Some (fsys2, d2)
     \<and> length (detection_history d1) = 1
     \<and> (detection_history d1 = detection_history test_detector
         \<or> (\<exists>info. detection_history d1 = detection_history test_detector @ [info])
         \<or> detection_history d1 = [])
     \<and> (detection_history d2 = detection_history d1
         \<or> (\<exists>info. detection_history d2 = detection_history d1 @ [info])
         \<or> detection_history d2 = [])"
proof -
  obtain d1 where d1: "d1 = snd (detect_image test_env test_fs ''/data/a.jpg'' test_detector)"
    by simp
  obtain d2 where d2: "d2 = snd (clear_history True d1)"
    by simp
  have run1: "step test_env (Op_detect_image ''/data/a.jpg'') (test_fs, test_detector)
                = Some (test_fs, d1)"
    by (simp add: d1)
  have run2: "step test_env (Op_clear_history True) (test_fs, d1) = Some (test_fs, d2)"
    by (simp add: d2)
  have len: "length (detection_history d1) = 1"
    by (simp add: d1 test_detect_image)
  from history_grows_or_is_cleared [OF run1] history_grows_or_is_cleared [OF run2] run1 run2 len
  show ?thesis by blast
qed

end
